theory Spec2Isabelle
  imports Complex_Main "HOL-Library.Multiset"
begin

section \<open>Shared types (shared/types.ts)\<close>

text \<open>
  The string-literal union types of the repository become datatypes. The risk levels and
  the moderator's decisions carry a prefix because \<open>high\<close>, \<open>low\<close> and \<open>rejected\<close> are
  also members of other unions.
\<close>

datatype ElementCategory = Water | Fire | Earth | Air | Spiritual


datatype UploadStatus = Under_Review | Published | Flagged

datatype ModerationStatus = auto_approved | requires_review | rejected

datatype ModerationQueueStatus = pending | in_review | resolved

datatype ModerationPriority = urgent | high | normal | low

datatype AuditAction = upload | categorize | moderate | publish | reject

datatype ContentType = video | post

datatype RiskLevel = risk_none | risk_low | risk_medium | risk_high

datatype Decision = decision_approved | decision_rejected

text \<open>
  A JavaScript number that the classifier can return as its confidence: a finite value
  (exactly representable values are rationals) or \<open>NaN\<close>. Every comparison with \<open>NaN\<close>
  is false.
\<close>

datatype jsnum = Num rat | NaN

fun js_lt :: "jsnum \<Rightarrow> jsnum \<Rightarrow> bool" where
  "js_lt (Num a) (Num b) = (a < b)"
| "js_lt _ _ = False"

text \<open>
  \<open>elementType\<close> is declared as a category, but the classifier copies it from the
  parsed response as it comes, so it is text.
\<close>

record AIAnalysisResult =
  elementType :: string
  confidence :: jsnum
  reasoning :: string

record SafetyAssessment =
  isSafe :: bool
  flags :: "string list"
  riskLevel :: RiskLevel

section \<open>Strings\<close>

text \<open>
  Strings are lists of characters. \<open>toLowerCase\<close> is modelled on ASCII text, where it
  maps \<open>A\<close>..\<open>Z\<close> to \<open>a\<close>..\<open>z\<close> and leaves every other character alone;
  \<open>includes\<close> is the substring test of \<open>String.prototype.includes\<close>.
\<close>

definition lower_char :: "char \<Rightarrow> char" where
  "lower_char c =
     (let n = (of_char c :: nat) in if 65 \<le> n \<and> n \<le> 90 then char_of (n + 32) else c)"

definition toLowerCase :: "string \<Rightarrow> string" where
  "toLowerCase s = map lower_char s"

fun startsWith :: "string \<Rightarrow> string \<Rightarrow> bool" where
  "startsWith t [] = True"
| "startsWith [] (w # ws) = False"
| "startsWith (c # t) (w # ws) = (c = w \<and> startsWith t ws)"

fun str_includes :: "string \<Rightarrow> string \<Rightarrow> bool" where
  "str_includes [] w = startsWith [] w"
| "str_includes (c # t) w = (startsWith (c # t) w \<or> str_includes t w)"

fun join :: "string \<Rightarrow> string list \<Rightarrow> string" where
  "join sep [] = []"
| "join sep [x] = x"
| "join sep (x # y # ys) = x @ sep @ join sep (y # ys)"

section \<open>Positivity analyzer (server/services/positivity-analyzer.ts)\<close>

definition positiveWords :: "string list" where
  "positiveWords =
     [''love'', ''happy'', ''joy'', ''peace'', ''gratitude'', ''inspire'', ''hope'',
      ''beautiful'', ''amazing'', ''wonderful'', ''blessing'', ''heal'', ''grow'',
      ''empower'', ''uplift'', ''kindness'', ''compassion'', ''harmony'', ''calm'',
      ''grateful'', ''positive'', ''support'', ''strength'', ''courage'', ''light'',
      ''meditation'', ''mindful'', ''wellness'', ''yoga'', ''spirit'', ''nature'']"

definition negativeWords :: "string list" where
  "negativeWords =
     [''hate'', ''angry'', ''sad'', ''fear'', ''anxiety'', ''stress'', ''pain'',
      ''fail'', ''ugly'', ''terrible'', ''awful'', ''destroy'', ''fight'', ''war'',
      ''toxic'', ''bad'', ''worst'', ''negative'', ''depress'', ''hopeless'']"

definition posCount :: "string \<Rightarrow> int" where
  "posCount content =
     int (length (filter (\<lambda>w. str_includes (toLowerCase content) w) positiveWords))"

definition negCount :: "string \<Rightarrow> int" where
  "negCount content =
     int (length (filter (\<lambda>w. str_includes (toLowerCase content) w) negativeWords))"

definition fallbackPositivityScore :: "string \<Rightarrow> int" where
  "fallbackPositivityScore content =
     (let score = 50 + posCount content * 5 - negCount content * 8
      in min 100 (max 0 score))"

section \<open>Ranking engine (server/services/ranking-engine.ts)\<close>

datatype VisibilityTier = featured | standard | reduced | suppressed

text \<open>
  The fields of a feed item that the ranking reads. \<open>positivityScore\<close> is
  \<open>number | null\<close>, filled from an integer column; \<open>createdAt\<close> holds the epoch
  milliseconds that \<open>new Date(item.createdAt).getTime()\<close> yields (the feed service
  writes the field with \<open>toISOString\<close>, which always parses back).
\<close>

record FeedItem =
  f_id :: int
  f_type :: ContentType
  f_elementCategory :: ElementCategory
  f_viewCount :: int
  f_positivityScore :: "int option"
  f_createdAt :: int

fun getVisibilityTier :: "int option \<Rightarrow> VisibilityTier" where
  "getVisibilityTier None = standard"
| "getVisibilityTier (Some positivityScore) =
     (if positivityScore \<ge> 90 then featured
      else if positivityScore \<ge> 50 then standard
      else if positivityScore \<ge> 30 then reduced
      else suppressed)"

fun tierOrder :: "VisibilityTier \<Rightarrow> int" where
  "tierOrder featured = 0"
| "tierOrder standard = 1"
| "tierOrder reduced = 2"
| "tierOrder suppressed = 3"

text \<open>The comparator passed to \<open>sort\<close>: negative when \<open>a\<close> goes first.\<close>

definition compareItems :: "FeedItem \<Rightarrow> FeedItem \<Rightarrow> int" where
  "compareItems a b =
     (let tierA = getVisibilityTier (f_positivityScore a);
          tierB = getVisibilityTier (f_positivityScore b)
      in if tierOrder tierA \<noteq> tierOrder tierB then tierOrder tierA - tierOrder tierB
         else f_createdAt b - f_createdAt a)"

text \<open>
  \<open>Array.prototype.sort\<close> is a stable sort. For a comparator that is a total preorder,
  as \<open>compareItems\<close> is, every stable sort returns the same list; the model computes it
  by stable insertion: an element goes in front of the first element it does not
  compare greater than.
\<close>

fun sort_insert :: "('a \<Rightarrow> 'a \<Rightarrow> int) \<Rightarrow> 'a \<Rightarrow> 'a list \<Rightarrow> 'a list" where
  "sort_insert cmp x [] = [x]"
| "sort_insert cmp x (y # ys) =
     (if cmp x y \<le> 0 then x # y # ys else y # sort_insert cmp x ys)"

fun array_sort :: "('a \<Rightarrow> 'a \<Rightarrow> int) \<Rightarrow> 'a list \<Rightarrow> 'a list" where
  "array_sort cmp [] = []"
| "array_sort cmp (x # xs) = sort_insert cmp x (array_sort cmp xs)"

definition applyPositivityRanking :: "FeedItem list \<Rightarrow> FeedItem list" where
  "applyPositivityRanking items =
     array_sort compareItems
       (filter (\<lambda>item. getVisibilityTier (f_positivityScore item) \<noteq> suppressed) items)"

section \<open>Safety moderation (server/services/safety-moderation.ts)\<close>

text \<open>
  What a function can throw: an \<open>Error\<close> with its message, or any other value. A
  function that can throw returns \<open>Inl\<close> what it throws or \<open>Inr\<close> its value.
\<close>

datatype thrown = ErrorObj string | NonError

text \<open>
  What the call to the external moderation endpoint can do, as far as
  \<open>checkContentSafety\<close> looks at it. \<open>FetchRejected e\<close>: \<open>fetch\<close> throws \<open>e\<close>.
  \<open>HttpResponse ok body\<close>: a response with \<open>response.ok = ok\<close>; its body is
  \<open>JsonRejected e\<close> when \<open>response.json()\<close> or reading \<open>data.results\<close> throws \<open>e\<close>,
  \<open>JsonData None\<close> when \<open>data.results?.[0]\<close> is absent, and \<open>JsonData (Some r)\<close>
  when it is the result \<open>r\<close>. Of a result the code reads the entries of
  \<open>result.categories || {}\<close>, each with the truthiness of its value, and whether
  \<open>result.flagged === true\<close>.
\<close>

record ModerationResult =
  categories :: "(string \<times> bool) list"
  flagged :: bool

datatype JsonOutcome = JsonRejected thrown | JsonData "ModerationResult option"

datatype FetchOutcome = FetchRejected thrown | HttpResponse bool JsonOutcome

definition highRiskCategories :: "string list" where
  "highRiskCategories =
     [''sexual/minors'', ''violence/graphic'', ''self-harm/intent'', ''self-harm/instructions'']"

text \<open>The body of the \<open>try\<close> block, from the request to the returned assessment.\<close>

definition checkContentSafetyTry ::
  "(string \<Rightarrow> FetchOutcome) \<Rightarrow> string \<Rightarrow> thrown + SafetyAssessment" where
  "checkContentSafetyTry api content =
     (case api content of
        FetchRejected e \<Rightarrow> Inl e
      | HttpResponse ok body \<Rightarrow>
          (if \<not> ok
           then Inr \<lparr>isSafe = False, flags = [''api_error''], riskLevel = risk_medium\<rparr>
           else case body of
                  JsonRejected e \<Rightarrow> Inl e
                | JsonData None \<Rightarrow> Inr \<lparr>isSafe = True, flags = [], riskLevel = risk_none\<rparr>
                | JsonData (Some result) \<Rightarrow>
                    (let flaggedCategories = map fst (filter snd (categories result));
                         isFlagged = flagged result;
                         hasHighRisk =
                           list_ex (\<lambda>c. c \<in> set highRiskCategories) flaggedCategories;
                         risk =
                           (if isFlagged then
                              (if hasHighRisk then risk_high
                               else if length flaggedCategories > 2 then risk_high
                               else if length flaggedCategories > 0 then risk_medium
                               else risk_none)
                            else risk_none)
                     in Inr \<lparr>isSafe = \<not> isFlagged, flags = flaggedCategories,
                              riskLevel = risk\<rparr>)))"

text \<open>
  \<open>OPENAI_API_KEY\<close> is \<open>None\<close> when the variable is unset; an empty string is falsy
  too. \<open>api\<close> is the endpoint: the outcome of the request for a given text.
\<close>

definition checkContentSafety ::
  "string option \<Rightarrow> (string \<Rightarrow> FetchOutcome) \<Rightarrow> string \<Rightarrow> ContentType \<Rightarrow>
   thrown + SafetyAssessment" where
  "checkContentSafety OPENAI_API_KEY api content contentType =
     (if OPENAI_API_KEY = None \<or> OPENAI_API_KEY = Some []
      then Inr \<lparr>isSafe = True, flags = [], riskLevel = risk_none\<rparr>
      else case checkContentSafetyTry api content of
             Inr assessment \<Rightarrow> Inr assessment
           | Inl error \<Rightarrow>
               Inr \<lparr>isSafe = False, flags = [''api_error''], riskLevel = risk_medium\<rparr>)"

section \<open>The store (shared/schema.ts)\<close>

text \<open>
  Each table is the list of its rows, in insertion order, with the columns the modelled
  services read or write; a nullable column is an \<open>option\<close>, a \<open>text\<close> column that the
  code fills with unvalidated text is a string. An identity column gets a value above
  every value in use. Timestamps are epoch milliseconds; the clock is a parameter of
  every operation that reads it.
\<close>

record video_row =
  v_id :: int
  v_uploadStatus :: UploadStatus
  v_elementCategory :: string
  v_viewCount :: int
  v_aiAnalysisResult :: "AIAnalysisResult option"
  v_safetyAssessment :: "SafetyAssessment option"
  v_moderationStatus :: "ModerationStatus option"
  v_moderationNotes :: "string option"
  v_moderatedBy :: "string option"
  v_moderatedAt :: "int option"
  v_positivityScore :: "int option"

record post_row =
  p_id :: int
  p_elementCategory :: "string option"
  p_uploadStatus :: "UploadStatus option"
  p_safetyAssessment :: "SafetyAssessment option"
  p_moderationStatus :: "ModerationStatus option"
  p_viewCount :: int
  p_engagementScore :: "int option"
  p_positivityScore :: "int option"

record queue_row =
  q_id :: int
  q_contentId :: int
  q_contentType :: ContentType
  q_aiFlaggedReason :: "string option"
  q_priority :: ModerationPriority
  q_createdAt :: int
  q_status :: ModerationQueueStatus

datatype changes =
    PipelineChanges AIAnalysisResult SafetyAssessment ModerationStatus jsnum
  | DecisionChanges Decision "string option"

record audit_row =
  a_id :: int
  a_action :: AuditAction
  a_actorId :: "string option"
  a_contentId :: "int option"
  a_contentType :: "ContentType option"
  a_changes :: "changes option"
  a_timestamp :: int

record trending_row =
  t_id :: int
  t_contentId :: int
  t_contentType :: ContentType
  t_elementCategory :: string
  t_trendingScore :: rat
  t_viewCount24h :: int
  t_engagementCount24h :: int
  t_updatedAt :: int

record db =
  videos :: "video_row list"
  posts :: "post_row list"
  moderationQueue :: "queue_row list"
  auditLog :: "audit_row list"
  contentTrending :: "trending_row list"

definition next_id :: "int list \<Rightarrow> int" where
  "next_id ids = fold max ids 0 + 1"

definition insert_moderationQueue ::
  "int \<Rightarrow> int \<Rightarrow> ContentType \<Rightarrow> string \<Rightarrow> ModerationPriority \<Rightarrow> db \<Rightarrow> db" where
  "insert_moderationQueue now cid ctype reason prio d =
     d\<lparr>moderationQueue := moderationQueue d @
         [\<lparr>q_id = next_id (map q_id (moderationQueue d)), q_contentId = cid,
           q_contentType = ctype, q_aiFlaggedReason = Some reason, q_priority = prio,
           q_createdAt = now, q_status = pending\<rparr>]\<rparr>"

definition insert_auditLog ::
  "int \<Rightarrow> AuditAction \<Rightarrow> string \<Rightarrow> int \<Rightarrow> ContentType \<Rightarrow> changes \<Rightarrow> db \<Rightarrow> db" where
  "insert_auditLog now action actor cid ctype ch d =
     d\<lparr>auditLog := auditLog d @
         [\<lparr>a_id = next_id (map a_id (auditLog d)), a_action = action, a_actorId = Some actor,
           a_contentId = Some cid, a_contentType = Some ctype, a_changes = Some ch,
           a_timestamp = now\<rparr>]\<rparr>"

subsection \<open>Writes that the store rejects\<close>

text \<open>
  A write can throw. Two rejections follow from the written value and are part of the
  model: an \<open>integer\<close> column takes no number that is not a 32-bit integer (a
  fractional positivity score, \<open>NaN\<close>), and the \<open>numeric(10, 2)\<close> column of the
  trending score takes no value of absolute value \<open>10^8\<close> or more. A rejected write
  leaves the table as it was.

  Every other reason for which the store rejects a write (a violated constraint, a lost
  connection) is an input: inside the \<open>try\<close> blocks of the moderation workflow each
  write has a site, and \<open>faults\<close> says for each site what the store throws there, if
  anything. The writes of the \<open>catch\<close> blocks, of \<open>resolveModeration\<close> and, the
  overflow apart, of the trending calculator are taken to succeed.
\<close>

datatype write_site = QueueInsert | RowUpdate | AuditInsert

type_synonym store_faults = "write_site \<Rightarrow> thrown option"

definition no_faults :: store_faults where
  "no_faults site = None"

text \<open>
  A number goes to the store as the string that \<open>numberToString\<close> makes of it, and the
  \<open>integer\<close> column parses that string: digits alone (an integral number below
  \<open>10^21\<close>) are taken when the value is in the 32-bit range and are out of range
  otherwise; a string with a fraction or an exponent, and \<open>NaN\<close>, is no integer. The
  errors carry the messages of PostgreSQL, which quote the string.
\<close>

definition quoted :: "string \<Rightarrow> string" where
  "quoted s = CHR 0x22 # s @ [CHR 0x22]"

definition storeInteger :: "(jsnum \<Rightarrow> string) \<Rightarrow> jsnum \<Rightarrow> thrown + int" where
  "storeInteger numberToString x =
     (case x of
        Num r \<Rightarrow>
          if r = of_int \<lfloor>r\<rfloor> \<and> \<bar>r\<bar> < 1000000000000000000000 then
            (if - 2147483648 \<le> \<lfloor>r\<rfloor> \<and> \<lfloor>r\<rfloor> \<le> 2147483647 then Inr \<lfloor>r\<rfloor>
             else Inl (ErrorObj (''value '' @ quoted (numberToString x)
                                  @ '' is out of range for type integer'')))
          else Inl (ErrorObj (''invalid input syntax for type integer: ''
                               @ quoted (numberToString x)))
      | NaN \<Rightarrow> Inl (ErrorObj (''invalid input syntax for type integer: ''
                               @ quoted (numberToString x))))"


text \<open>
  A write at a site of a \<open>try\<close> block: the error and the store as it is when the store
  rejects, the written store otherwise.
\<close>

definition attempt ::
  "store_faults \<Rightarrow> write_site \<Rightarrow> (db \<Rightarrow> db) \<Rightarrow> db \<Rightarrow> thrown \<times> db + db" where
  "attempt faults site write d =
     (case faults site of Some e \<Rightarrow> Inl (e, d) | None \<Rightarrow> Inr (write d))"

section \<open>Moderation workflow (server/services/moderation-workflow.ts)\<close>

text \<open>
  The three awaited stages (classifier, safety screener, positivity scorer) talk to
  external services, so their outcomes are inputs of the model: \<open>Inr\<close> the value the
  stage returns, \<open>Inl\<close> what it throws. The positivity scorer returns a JavaScript
  number, which need not be an integer. The stages run in this order, before any write
  to the store. The title, description and URL of the upload only feed the stages.
  \<open>numberToString\<close> is the number-to-string conversion of a template literal.

  A \<open>try\<close> block returns \<open>Inr\<close> the store and the result when it reaches its end, and
  \<open>Inl\<close> the error and the store as written so far when a stage or a write throws; the
  \<open>catch\<close> block then runs on that store.
\<close>

definition errorMessage :: "thrown \<Rightarrow> string" where
  "errorMessage e = (case e of ErrorObj m \<Rightarrow> m | NonError \<Rightarrow> ''Unknown error'')"

record outcome =
  success :: bool
  status :: ModerationStatus

text \<open>Step 4 of \<open>processVideoUpload\<close>: the decision, and the queue insert of its branch.\<close>

definition videoModerationStatus :: "AIAnalysisResult \<Rightarrow> SafetyAssessment \<Rightarrow> ModerationStatus" where
  "videoModerationStatus analysis safety =
     (if \<not> isSafe safety then
        (if riskLevel safety = risk_high then rejected else requires_review)
      else if js_lt (confidence analysis) (Num (1 / 2)) then requires_review
      else auto_approved)"

definition videoQueueStep ::
  "store_faults \<Rightarrow> int \<Rightarrow> (jsnum \<Rightarrow> string) \<Rightarrow> AIAnalysisResult \<Rightarrow> SafetyAssessment \<Rightarrow> int \<Rightarrow>
   db \<Rightarrow> thrown \<times> db + db" where
  "videoQueueStep faults now numberToString analysis safety videoId d =
     (if \<not> isSafe safety then
        attempt faults QueueInsert
          (insert_moderationQueue now videoId video (join '', '' (flags safety))
             (if riskLevel safety = risk_high then urgent else high)) d
      else if js_lt (confidence analysis) (Num (1 / 2)) then
        attempt faults QueueInsert
          (insert_moderationQueue now videoId video
             (''Low categorization confidence: '' @ numberToString (confidence analysis))
             normal) d
      else Inr d)"

text \<open>Step 5: the update of the video row.\<close>

definition videoUpdateStep ::
  "store_faults \<Rightarrow> (jsnum \<Rightarrow> string) \<Rightarrow> AIAnalysisResult \<Rightarrow> SafetyAssessment \<Rightarrow>
   ModerationStatus \<Rightarrow> jsnum \<Rightarrow> int \<Rightarrow> db \<Rightarrow> thrown \<times> db + db" where
  "videoUpdateStep faults numberToString analysis safety moderationStatus positivityScore videoId d =
     (case storeInteger numberToString positivityScore of
        Inl e \<Rightarrow> Inl (e, d)
      | Inr score \<Rightarrow>
          attempt faults RowUpdate
            (\<lambda>d. d\<lparr>videos := map (\<lambda>v. if v_id v = videoId
                       then v\<lparr>v_elementCategory := elementType analysis,
                              v_aiAnalysisResult := Some analysis,
                              v_safetyAssessment := Some safety,
                              v_moderationStatus := Some moderationStatus,
                              v_uploadStatus :=
                                (if moderationStatus = auto_approved then Published
                                 else if moderationStatus = rejected then Flagged
                                 else Under_Review),
                              v_positivityScore := Some score\<rparr>
                       else v) (videos d)\<rparr>) d)"

text \<open>Step 6: the audit entry.\<close>

definition auditStep ::
  "store_faults \<Rightarrow> int \<Rightarrow> string \<Rightarrow> int \<Rightarrow> ContentType \<Rightarrow> AIAnalysisResult \<Rightarrow> SafetyAssessment \<Rightarrow>
   ModerationStatus \<Rightarrow> jsnum \<Rightarrow> db \<Rightarrow> thrown \<times> db + db" where
  "auditStep faults now actorId cid ctype analysis safety moderationStatus positivityScore d =
     attempt faults AuditInsert
       (insert_auditLog now (if moderationStatus = auto_approved then publish else moderate)
          actorId cid ctype
          (PipelineChanges analysis safety moderationStatus positivityScore)) d"

definition videoUploadTry ::
  "store_faults \<Rightarrow> int \<Rightarrow> (jsnum \<Rightarrow> string) \<Rightarrow> thrown + AIAnalysisResult \<Rightarrow>
   thrown + SafetyAssessment \<Rightarrow> thrown + jsnum \<Rightarrow> int \<Rightarrow> string \<Rightarrow> db \<Rightarrow>
   thrown \<times> db + db \<times> outcome" where
  "videoUploadTry faults now numberToString analysisR safetyR positivityR videoId actorId d =
     (case analysisR of Inl e \<Rightarrow> Inl (e, d) | Inr analysis \<Rightarrow>
      case safetyR of Inl e \<Rightarrow> Inl (e, d) | Inr safety \<Rightarrow>
      case positivityR of Inl e \<Rightarrow> Inl (e, d) | Inr positivityScore \<Rightarrow>
        (let moderationStatus = videoModerationStatus analysis safety
         in case videoQueueStep faults now numberToString analysis safety videoId d of
              Inl x \<Rightarrow> Inl x
            | Inr d1 \<Rightarrow>
         case videoUpdateStep faults numberToString analysis safety moderationStatus
                positivityScore videoId d1 of
              Inl x \<Rightarrow> Inl x
            | Inr d2 \<Rightarrow>
         case auditStep faults now actorId videoId video analysis safety moderationStatus
                positivityScore d2 of
              Inl x \<Rightarrow> Inl x
            | Inr d3 \<Rightarrow> Inr (d3, \<lparr>success = True, status = moderationStatus\<rparr>)))"

definition videoUploadCatch :: "int \<Rightarrow> thrown \<Rightarrow> int \<Rightarrow> db \<Rightarrow> db \<times> outcome" where
  "videoUploadCatch now error videoId d =
     (let d1 = d\<lparr>videos := map (\<lambda>v. if v_id v = videoId
                       then v\<lparr>v_moderationStatus := Some requires_review,
                              v_uploadStatus := Under_Review\<rparr>
                       else v) (videos d)\<rparr>;
          d2 = insert_moderationQueue now videoId video
                 (''Processing error: '' @ errorMessage error) high d1
      in (d2, \<lparr>success = False, status = requires_review\<rparr>))"

definition processVideoUpload ::
  "store_faults \<Rightarrow> int \<Rightarrow> (jsnum \<Rightarrow> string) \<Rightarrow> thrown + AIAnalysisResult \<Rightarrow>
   thrown + SafetyAssessment \<Rightarrow> thrown + jsnum \<Rightarrow> int \<Rightarrow> string \<Rightarrow> db \<Rightarrow> db \<times> outcome" where
  "processVideoUpload faults now numberToString analysisR safetyR positivityR videoId actorId d =
     (case videoUploadTry faults now numberToString analysisR safetyR positivityR videoId
             actorId d of
        Inr r \<Rightarrow> r
      | Inl (error, d') \<Rightarrow> videoUploadCatch now error videoId d')"

text \<open>The same steps of \<open>processPostCreation\<close>.\<close>

definition postModerationStatus :: "SafetyAssessment \<Rightarrow> ModerationStatus" where
  "postModerationStatus safety =
     (if \<not> isSafe safety then
        (if riskLevel safety = risk_high then rejected else requires_review)
      else auto_approved)"

definition postQueueStep ::
  "store_faults \<Rightarrow> int \<Rightarrow> SafetyAssessment \<Rightarrow> int \<Rightarrow> db \<Rightarrow> thrown \<times> db + db" where
  "postQueueStep faults now safety postId d =
     (if \<not> isSafe safety then
        attempt faults QueueInsert
          (insert_moderationQueue now postId post (join '', '' (flags safety))
             (if riskLevel safety = risk_high then urgent else high)) d
      else Inr d)"

definition postUpdateStep ::
  "store_faults \<Rightarrow> (jsnum \<Rightarrow> string) \<Rightarrow> AIAnalysisResult \<Rightarrow> SafetyAssessment \<Rightarrow>
   ModerationStatus \<Rightarrow> jsnum \<Rightarrow> int \<Rightarrow> db \<Rightarrow> thrown \<times> db + db" where
  "postUpdateStep faults numberToString analysis safety moderationStatus positivityScore postId d =
     (case storeInteger numberToString positivityScore of
        Inl e \<Rightarrow> Inl (e, d)
      | Inr score \<Rightarrow>
          attempt faults RowUpdate
            (\<lambda>d. d\<lparr>posts := map (\<lambda>p. if p_id p = postId
                       then p\<lparr>p_elementCategory := Some (elementType analysis),
                              p_safetyAssessment := Some safety,
                              p_moderationStatus := Some moderationStatus,
                              p_uploadStatus :=
                                Some (if moderationStatus = auto_approved then Published
                                      else if moderationStatus = rejected then Flagged
                                      else Under_Review),
                              p_positivityScore := Some score\<rparr>
                       else p) (posts d)\<rparr>) d)"

definition postCreationTry ::
  "store_faults \<Rightarrow> int \<Rightarrow> (jsnum \<Rightarrow> string) \<Rightarrow> thrown + AIAnalysisResult \<Rightarrow>
   thrown + SafetyAssessment \<Rightarrow> thrown + jsnum \<Rightarrow> int \<Rightarrow> string \<Rightarrow> db \<Rightarrow>
   thrown \<times> db + db \<times> outcome" where
  "postCreationTry faults now numberToString analysisR safetyR positivityR postId actorId d =
     (case analysisR of Inl e \<Rightarrow> Inl (e, d) | Inr analysis \<Rightarrow>
      case safetyR of Inl e \<Rightarrow> Inl (e, d) | Inr safety \<Rightarrow>
      case positivityR of Inl e \<Rightarrow> Inl (e, d) | Inr positivityScore \<Rightarrow>
        (let moderationStatus = postModerationStatus safety
         in case postQueueStep faults now safety postId d of
              Inl x \<Rightarrow> Inl x
            | Inr d1 \<Rightarrow>
         case postUpdateStep faults numberToString analysis safety moderationStatus
                positivityScore postId d1 of
              Inl x \<Rightarrow> Inl x
            | Inr d2 \<Rightarrow>
         case auditStep faults now actorId postId post analysis safety moderationStatus
                positivityScore d2 of
              Inl x \<Rightarrow> Inl x
            | Inr d3 \<Rightarrow> Inr (d3, \<lparr>success = True, status = moderationStatus\<rparr>)))"

definition postCreationCatch :: "thrown \<Rightarrow> int \<Rightarrow> db \<Rightarrow> db \<times> outcome" where
  "postCreationCatch error postId d =
     (let d1 = d\<lparr>posts := map (\<lambda>p. if p_id p = postId
                       then p\<lparr>p_moderationStatus := Some requires_review,
                              p_uploadStatus := Some Under_Review\<rparr>
                       else p) (posts d)\<rparr>
      in (d1, \<lparr>success = False, status = requires_review\<rparr>))"

definition processPostCreation ::
  "store_faults \<Rightarrow> int \<Rightarrow> (jsnum \<Rightarrow> string) \<Rightarrow> thrown + AIAnalysisResult \<Rightarrow>
   thrown + SafetyAssessment \<Rightarrow> thrown + jsnum \<Rightarrow> int \<Rightarrow> string \<Rightarrow> db \<Rightarrow> db \<times> outcome" where
  "processPostCreation faults now numberToString analysisR safetyR positivityR postId actorId d =
     (case postCreationTry faults now numberToString analysisR safetyR positivityR postId
             actorId d of
        Inr r \<Rightarrow> r
      | Inl (error, d') \<Rightarrow> postCreationCatch error postId d')"

text \<open>
  \<open>notes\<close> is \<open>string | undefined\<close>; a column set to \<open>undefined\<close> is left out of the
  update, so the stored notes stay as they are.
\<close>

definition resolveModeration ::
  "int \<Rightarrow> int \<Rightarrow> ContentType \<Rightarrow> Decision \<Rightarrow> string option \<Rightarrow> string \<Rightarrow> db \<Rightarrow> db" where
  "resolveModeration now contentId contentType decision notes moderatorId d =
     (let moderationStatus = (if decision = decision_approved then auto_approved else rejected);
          uploadStatus = (if decision = decision_approved then Published else Flagged);
          d1 = (if contentType = video
                then d\<lparr>videos := map (\<lambda>v. if v_id v = contentId
                          then v\<lparr>v_moderationStatus := Some moderationStatus,
                                 v_uploadStatus := uploadStatus,
                                 v_moderationNotes :=
                                   (case notes of None \<Rightarrow> v_moderationNotes v | Some n \<Rightarrow> Some n),
                                 v_moderatedBy := Some moderatorId,
                                 v_moderatedAt := Some now\<rparr>
                          else v) (videos d)\<rparr>
                else d\<lparr>posts := map (\<lambda>p. if p_id p = contentId
                          then p\<lparr>p_moderationStatus := Some moderationStatus,
                                 p_uploadStatus := Some uploadStatus\<rparr>
                          else p) (posts d)\<rparr>);
          d2 = d1\<lparr>moderationQueue := map (\<lambda>q. if q_contentId q = contentId
                    then q\<lparr>q_status := resolved\<rparr> else q) (moderationQueue d1)\<rparr>
      in insert_auditLog now (if decision = decision_approved then publish else reject)
           moderatorId contentId contentType (DecisionChanges decision notes) d2)"

text \<open>
  The publish status that the data model assigns to each moderation status, written
  from the specification's table.
\<close>

fun spec_publishStatus :: "ModerationStatus \<Rightarrow> UploadStatus" where
  "spec_publishStatus auto_approved = Published"
| "spec_publishStatus rejected = Flagged"
| "spec_publishStatus requires_review = Under_Review"

section \<open>Trending calculator (server/services/trending-calculator.ts)\<close>















section \<open>Auxiliary notions for the trending table\<close>















section \<open>Example data\<close>

definition ranking_example :: "FeedItem list" where
  "ranking_example =
     [\<lparr>f_id = 1, f_type = post, f_elementCategory = Water, f_viewCount = 3,
        f_positivityScore = Some 40, f_createdAt = 500\<rparr>,
      \<lparr>f_id = 2, f_type = video, f_elementCategory = Fire, f_viewCount = 0,
        f_positivityScore = Some 10, f_createdAt = 900\<rparr>,
      \<lparr>f_id = 3, f_type = post, f_elementCategory = Air, f_viewCount = 7,
        f_positivityScore = None, f_createdAt = 100\<rparr>,
      \<lparr>f_id = 4, f_type = video, f_elementCategory = Earth, f_viewCount = 1,
        f_positivityScore = Some 95, f_createdAt = 50\<rparr>,
      \<lparr>f_id = 5, f_type = video, f_elementCategory = Earth, f_viewCount = 1,
        f_positivityScore = Some 60, f_createdAt = 700\<rparr>]"

definition example_db :: db where
  "example_db =
     \<lparr>videos =
        [\<lparr>v_id = 7, v_uploadStatus = Under_Review, v_elementCategory = ''Fire'',
          v_viewCount = 13, v_aiAnalysisResult = None, v_safetyAssessment = None,
          v_moderationStatus = Some requires_review, v_moderationNotes = None,
          v_moderatedBy = None, v_moderatedAt = None, v_positivityScore = None\<rparr>],
      posts =
        [\<lparr>p_id = 7, p_elementCategory = None, p_uploadStatus = Some Published,
          p_safetyAssessment = None, p_moderationStatus = Some auto_approved,
          p_viewCount = 4, p_engagementScore = Some 2, p_positivityScore = None\<rparr>],
      moderationQueue =
        [\<lparr>q_id = 1, q_contentId = 7, q_contentType = video,
          q_aiFlaggedReason = Some ''harassment'', q_priority = high, q_createdAt = 10,
          q_status = pending\<rparr>,
         \<lparr>q_id = 2, q_contentId = 7, q_contentType = post,
          q_aiFlaggedReason = Some ''hate'', q_priority = high, q_createdAt = 20,
          q_status = pending\<rparr>,
         \<lparr>q_id = 3, q_contentId = 8, q_contentType = post,
          q_aiFlaggedReason = Some ''hate'', q_priority = high, q_createdAt = 30,
          q_status = pending\<rparr>],
      auditLog = [],
      contentTrending = []\<rparr>"

text \<open>How the examples print the numbers they use.\<close>

definition example_numberToString :: "jsnum \<Rightarrow> string" where
  "example_numberToString x =
     (if x = Num (3 / 10) then ''0.3''
      else if x = Num (8 / 10) then ''0.8''
      else if x = Num (145 / 2) then ''72.5''
      else if x = Num 60 then ''60''
      else ''NaN'')"



section \<open>Positivity analyzer: the fallback score\<close>

text \<open>
  C5 (as amended). For the post text "I hate everything, it's hopeless" the fallback
  scorer returns 39 = 50 + 5 * 1 - 8 * 2. The keyword test is a substring test, so the
  text has two negative-keyword hits ("hate" and "hopeless") and one positive-keyword hit
  ("hope", inside "hopeless"). The rule itself is the stated one: baseline 50, plus 5
  per positive keyword found, minus 8 per negative keyword found, clamped to [0, 100].
\<close>

theorem fallbackPositivityScore_hopeless_is_39:
  "fallbackPositivityScore ''I hate everything, it's hopeless'' = 39
   \<and> filter (str_includes (toLowerCase ''I hate everything, it's hopeless'')) negativeWords
       = [''hate'', ''hopeless'']
   \<and> filter (str_includes (toLowerCase ''I hate everything, it's hopeless'')) positiveWords
       = [''hope'']
   \<and> (\<forall>content. fallbackPositivityScore content
          = min 100 (max 0 (50 + 5 * posCount content - 8 * negCount content)))"
proof (intro conjI)
  show "fallbackPositivityScore ''I hate everything, it's hopeless'' = 39"
    by code_simp
  show "filter (str_includes (toLowerCase ''I hate everything, it's hopeless'')) negativeWords
          = [''hate'', ''hopeless'']"
    by code_simp
  show "filter (str_includes (toLowerCase ''I hate everything, it's hopeless'')) positiveWords
          = [''hope'']"
    by code_simp
  show "\<forall>content. fallbackPositivityScore content
          = min 100 (max 0 (50 + 5 * posCount content - 8 * negCount content))"
    by (simp add: fallbackPositivityScore_def Let_def mult.commute)
qed

text \<open>
  C5 as stated fails: on that text the fallback score is not 34.
\<close>

theorem fallbackPositivityScore_hopeless_not_34:
  "fallbackPositivityScore ''I hate everything, it's hopeless'' \<noteq> 34"
  by code_simp

section \<open>Ranking engine: tiers, filtering and order\<close>

lemma tierOrder_inj: "tierOrder s = tierOrder t \<longleftrightarrow> s = t"
  by (cases s; cases t) simp_all

lemma compareItems_le_iff:
  "compareItems a b \<le> 0 \<longleftrightarrow>
     tierOrder (getVisibilityTier (f_positivityScore a))
       < tierOrder (getVisibilityTier (f_positivityScore b))
     \<or> (tierOrder (getVisibilityTier (f_positivityScore a))
          = tierOrder (getVisibilityTier (f_positivityScore b))
        \<and> f_createdAt b \<le> f_createdAt a)"
  by (auto simp: compareItems_def Let_def)

lemma compareItems_trans:
  "compareItems a b \<le> 0 \<Longrightarrow> compareItems b c \<le> 0 \<Longrightarrow> compareItems a c \<le> 0"
  unfolding compareItems_le_iff by auto

lemma compareItems_total: "compareItems a b \<le> 0 \<or> compareItems b a \<le> 0"
  unfolding compareItems_le_iff by auto

lemma set_sort_insert: "set (sort_insert cmp x xs) = insert x (set xs)"
  by (induction xs) auto

lemma mset_sort_insert: "mset (sort_insert cmp x xs) = add_mset x (mset xs)"
  by (induction xs) auto

lemma mset_array_sort: "mset (array_sort cmp xs) = mset xs"
  by (induction xs) (simp_all add: mset_sort_insert)

lemma set_array_sort: "set (array_sort cmp xs) = set xs"
  by (induction xs) (simp_all add: set_sort_insert)

lemma sorted_sort_insert:
  assumes "sorted_wrt (\<lambda>a b. compareItems a b \<le> 0) xs"
  shows "sorted_wrt (\<lambda>a b. compareItems a b \<le> 0) (sort_insert compareItems x xs)"
  using assms
proof (induction xs)
  case Nil
  then show ?case by simp
next
  case (Cons y ys)
  show ?case
  proof (cases "compareItems x y \<le> 0")
    case True
    with Cons.prems show ?thesis
      by (auto intro: compareItems_trans)
  next
    case False
    then have "compareItems y x \<le> 0"
      using compareItems_total [of x y] by simp
    with False Cons show ?thesis
      by (auto simp: set_sort_insert)
  qed
qed

lemma sorted_array_sort:
  "sorted_wrt (\<lambda>a b. compareItems a b \<le> 0) (array_sort compareItems xs)"
  by (induction xs) (simp_all add: sorted_sort_insert)

text \<open>
  C7. Every positivity score has exactly one visibility tier (absent: standard; at least
  90: featured; at least 50: standard; at least 30: reduced; below 30: suppressed).
  The ranked list holds exactly the items of the input that are not suppressed, and it
  is ordered by tier (featured, standard, reduced) and, inside a tier, by descending
  creation time. The ranking is a function of the list alone.
\<close>

theorem applyPositivityRanking_tiers_filter_order:
  "getVisibilityTier None = standard
   \<and> (\<forall>p. getVisibilityTier (Some p) = featured \<longleftrightarrow> 90 \<le> p)
   \<and> (\<forall>p. getVisibilityTier (Some p) = standard \<longleftrightarrow> 50 \<le> p \<and> p < 90)
   \<and> (\<forall>p. getVisibilityTier (Some p) = reduced \<longleftrightarrow> 30 \<le> p \<and> p < 50)
   \<and> (\<forall>p. getVisibilityTier (Some p) = suppressed \<longleftrightarrow> p < 30)
   \<and> (\<forall>item \<in> set (applyPositivityRanking items).
         item \<in> set items \<and> getVisibilityTier (f_positivityScore item) \<noteq> suppressed)
   \<and> mset (applyPositivityRanking items)
       = mset (filter (\<lambda>item. getVisibilityTier (f_positivityScore item) \<noteq> suppressed) items)
   \<and> sorted_wrt
         (\<lambda>a b. tierOrder (getVisibilityTier (f_positivityScore a))
                  < tierOrder (getVisibilityTier (f_positivityScore b))
                \<or> (getVisibilityTier (f_positivityScore a)
                     = getVisibilityTier (f_positivityScore b)
                   \<and> f_createdAt a \<ge> f_createdAt b))
         (applyPositivityRanking items)"
proof (intro conjI)
  show "getVisibilityTier None = standard" by simp
  show "\<forall>p. getVisibilityTier (Some p) = featured \<longleftrightarrow> 90 \<le> p" by simp
  show "\<forall>p. getVisibilityTier (Some p) = standard \<longleftrightarrow> 50 \<le> p \<and> p < 90" by auto
  show "\<forall>p. getVisibilityTier (Some p) = reduced \<longleftrightarrow> 30 \<le> p \<and> p < 50" by auto
  show "\<forall>p. getVisibilityTier (Some p) = suppressed \<longleftrightarrow> p < 30" by auto
  show "\<forall>item \<in> set (applyPositivityRanking items).
          item \<in> set items \<and> getVisibilityTier (f_positivityScore item) \<noteq> suppressed"
    by (simp add: applyPositivityRanking_def set_array_sort)
  show "mset (applyPositivityRanking items)
          = mset (filter (\<lambda>item. getVisibilityTier (f_positivityScore item) \<noteq> suppressed) items)"
    by (simp add: applyPositivityRanking_def mset_array_sort)
  have "sorted_wrt (\<lambda>a b. compareItems a b \<le> 0) (applyPositivityRanking items)"
    by (simp add: applyPositivityRanking_def sorted_array_sort)
  then show "sorted_wrt
         (\<lambda>a b. tierOrder (getVisibilityTier (f_positivityScore a))
                  < tierOrder (getVisibilityTier (f_positivityScore b))
                \<or> (getVisibilityTier (f_positivityScore a)
                     = getVisibilityTier (f_positivityScore b)
                   \<and> f_createdAt a \<ge> f_createdAt b))
         (applyPositivityRanking items)"
    by (simp add: compareItems_le_iff tierOrder_inj)
qed

theorem applyPositivityRanking_witness:
  "map f_id (applyPositivityRanking ranking_example) = [4, 5, 3, 1]
   \<and> \<lparr>f_id = 5, f_type = video, f_elementCategory = Earth, f_viewCount = 1,
        f_positivityScore = Some 60, f_createdAt = 700\<rparr> \<in> set ranking_example
   \<and> getVisibilityTier (Some 60) \<noteq> suppressed"
proof -
  have ids: "map f_id (applyPositivityRanking ranking_example) = [4, 5, 3, 1]"
    by code_simp
  have mem: "\<lparr>f_id = 5, f_type = video, f_elementCategory = Earth, f_viewCount = 1,
               f_positivityScore = Some 60, f_createdAt = 700\<rparr>
             \<in> set (applyPositivityRanking ranking_example)"
    by code_simp
  have "\<forall>item \<in> set (applyPositivityRanking ranking_example).
          item \<in> set ranking_example \<and> getVisibilityTier (f_positivityScore item) \<noteq> suppressed"
    using applyPositivityRanking_tiers_filter_order [of ranking_example] by blast
  with mem have "\<lparr>f_id = 5, f_type = video, f_elementCategory = Earth, f_viewCount = 1,
               f_positivityScore = Some 60, f_createdAt = 700\<rparr> \<in> set ranking_example
     \<and> getVisibilityTier (f_positivityScore \<lparr>f_id = 5, f_type = video,
          f_elementCategory = Earth, f_viewCount = 1, f_positivityScore = Some 60,
          f_createdAt = 700\<rparr>) \<noteq> suppressed"
    by blast
  with ids show ?thesis by simp
qed

section \<open>Safety screener: fallbacks and risk level\<close>

lemma checkContentSafety_unconfigured:
  "key = None \<or> key = Some [] \<Longrightarrow>
     checkContentSafety key api content contentType
       = Inr \<lparr>isSafe = True, flags = [], riskLevel = risk_none\<rparr>"
  by (simp add: checkContentSafety_def)

lemma checkContentSafety_configured:
  "key \<noteq> None \<Longrightarrow> key \<noteq> Some [] \<Longrightarrow>
     checkContentSafety key api content contentType
       = (case checkContentSafetyTry api content of
            Inr assessment \<Rightarrow> Inr assessment
          | Inl error \<Rightarrow>
              Inr \<lparr>isSafe = False, flags = [''api_error''], riskLevel = risk_medium\<rparr>)"
  by (cases key) (simp_all add: checkContentSafety_def)

lemma checkContentSafety_returns:
  "\<exists>assessment. checkContentSafety key api content contentType = Inr assessment"
  by (cases "checkContentSafetyTry api content") (simp_all add: checkContentSafety_def)

lemma checkContentSafetyTry_failures:
  "api content = FetchRejected e \<Longrightarrow> checkContentSafetyTry api content = Inl e"
  "api content = HttpResponse False body \<Longrightarrow>
     checkContentSafetyTry api content
       = Inr \<lparr>isSafe = False, flags = [''api_error''], riskLevel = risk_medium\<rparr>"
  "api content = HttpResponse True (JsonRejected e) \<Longrightarrow>
     checkContentSafetyTry api content = Inl e"
  by (simp_all add: checkContentSafetyTry_def)

text \<open>
  C4. Without a configured key the screener returns safe, no flags, risk none. With a
  key, when the request throws, the response is not OK, or reading the body throws, it
  returns unsafe, the flag "api_error" and risk medium. In every case it returns an
  assessment: nothing it does escapes as an exception.
\<close>

theorem checkContentSafety_fallbacks:
  "(key = None \<or> key = Some [] \<longrightarrow>
      checkContentSafety key api content contentType
        = Inr \<lparr>isSafe = True, flags = [], riskLevel = risk_none\<rparr>)
   \<and> (key \<noteq> None \<and> key \<noteq> Some []
       \<and> ((\<exists>e. api content = FetchRejected e)
          \<or> (\<exists>body. api content = HttpResponse False body)
          \<or> (\<exists>e. api content = HttpResponse True (JsonRejected e))) \<longrightarrow>
      checkContentSafety key api content contentType
        = Inr \<lparr>isSafe = False, flags = [''api_error''], riskLevel = risk_medium\<rparr>)
   \<and> (\<exists>assessment. checkContentSafety key api content contentType = Inr assessment)"
proof (intro conjI impI)
  assume "key = None \<or> key = Some []"
  then show "checkContentSafety key api content contentType
               = Inr \<lparr>isSafe = True, flags = [], riskLevel = risk_none\<rparr>"
    by (rule checkContentSafety_unconfigured)
next
  assume h: "key \<noteq> None \<and> key \<noteq> Some []
       \<and> ((\<exists>e. api content = FetchRejected e)
          \<or> (\<exists>body. api content = HttpResponse False body)
          \<or> (\<exists>e. api content = HttpResponse True (JsonRejected e)))"
  then have c: "checkContentSafety key api content contentType
       = (case checkContentSafetyTry api content of
            Inr assessment \<Rightarrow> Inr assessment
          | Inl error \<Rightarrow>
              Inr \<lparr>isSafe = False, flags = [''api_error''], riskLevel = risk_medium\<rparr>)"
    by (simp add: checkContentSafety_configured)
  from h consider e where "api content = FetchRejected e"
    | body where "api content = HttpResponse False body"
    | e where "api content = HttpResponse True (JsonRejected e)"
    by blast
  then show "checkContentSafety key api content contentType
        = Inr \<lparr>isSafe = False, flags = [''api_error''], riskLevel = risk_medium\<rparr>"
    by cases (simp_all only: c checkContentSafetyTry_failures sum.case)
next
  show "\<exists>assessment. checkContentSafety key api content contentType = Inr assessment"
    by (rule checkContentSafety_returns)
qed

theorem checkContentSafety_fallbacks_witness:
  "checkContentSafety None (\<lambda>t. FetchRejected NonError) ''hello'' post
     = Inr \<lparr>isSafe = True, flags = [], riskLevel = risk_none\<rparr>
   \<and> checkContentSafety (Some ''sk-live'') (\<lambda>t. FetchRejected (ErrorObj ''ECONNRESET''))
        ''hello'' post
     = Inr \<lparr>isSafe = False, flags = [''api_error''], riskLevel = risk_medium\<rparr>
   \<and> checkContentSafety (Some ''sk-live'') (\<lambda>t. HttpResponse False (JsonData None))
        ''hello'' video
     = Inr \<lparr>isSafe = False, flags = [''api_error''], riskLevel = risk_medium\<rparr>"
  using checkContentSafety_fallbacks
          [of None "\<lambda>t. FetchRejected NonError" "''hello''" post]
        checkContentSafety_fallbacks
          [of "Some ''sk-live''" "\<lambda>t. FetchRejected (ErrorObj ''ECONNRESET'')" "''hello''" post]
        checkContentSafety_fallbacks
          [of "Some ''sk-live''" "\<lambda>t. HttpResponse False (JsonData None)" "''hello''" video]
  by simp

lemma checkContentSafetyTry_result:
  "api content = HttpResponse True (JsonData (Some result)) \<Longrightarrow>
     checkContentSafetyTry api content
       = Inr \<lparr>isSafe = \<not> flagged result,
              flags = map fst (filter snd (categories result)),
              riskLevel =
                (if flagged result then
                   (if \<exists>c \<in> set (map fst (filter snd (categories result))).
                         c \<in> set highRiskCategories then risk_high
                    else if length (map fst (filter snd (categories result))) > 2 then risk_high
                    else if length (map fst (filter snd (categories result))) > 0 then risk_medium
                    else risk_none)
                 else risk_none)\<rparr>"
  by (simp add: checkContentSafetyTry_def Let_def list_ex_iff del: set_map length_map)

lemma set_highRiskCategories:
  "set highRiskCategories
     = {''sexual/minors'', ''violence/graphic'', ''self-harm/intent'', ''self-harm/instructions''}"
  unfolding highRiskCategories_def by (simp only: list.set)

text \<open>
  C9. For a response that carries a result: the flags are the categories with a true
  value. When the result is flagged, the risk is high if a high-severity category
  (sexual/minors, violence/graphic, self-harm/intent, self-harm/instructions) is among
  the flags or more than two categories are flagged, medium if one or two categories
  are flagged and none is high-severity, none if no category is flagged; a flagged
  result is unsafe. A result that is not flagged has risk none and is safe.
\<close>

theorem checkContentSafety_riskLevel:
  assumes "key \<noteq> None" and "key \<noteq> Some []"
    and "api content = HttpResponse True (JsonData (Some result))"
  shows "\<exists>a. checkContentSafety key api content contentType = Inr a
     \<and> flags a = map fst (filter snd (categories result))
     \<and> (flagged result
          \<and> ((\<exists>c \<in> set (flags a). c \<in> {''sexual/minors'', ''violence/graphic'',
                  ''self-harm/intent'', ''self-harm/instructions''})
             \<or> length (flags a) > 2)
         \<longrightarrow> riskLevel a = risk_high \<and> \<not> isSafe a)
     \<and> (flagged result
          \<and> \<not> (\<exists>c \<in> set (flags a). c \<in> {''sexual/minors'', ''violence/graphic'',
                  ''self-harm/intent'', ''self-harm/instructions''})
          \<and> (length (flags a) = 1 \<or> length (flags a) = 2)
         \<longrightarrow> riskLevel a = risk_medium \<and> \<not> isSafe a)
     \<and> (flagged result \<and> flags a = [] \<longrightarrow> riskLevel a = risk_none \<and> \<not> isSafe a)
     \<and> (\<not> flagged result \<longrightarrow> riskLevel a = risk_none \<and> isSafe a)"
proof -
  define fc where "fc = map fst (filter snd (categories result))"
  define hr where "hr = (\<exists>c \<in> set fc. c \<in> set highRiskCategories)"
  define a where "a = \<lparr>isSafe = \<not> flagged result, flags = fc,
       riskLevel = (if flagged result then
                      (if hr then risk_high
                       else if length fc > 2 then risk_high
                       else if length fc > 0 then risk_medium
                       else risk_none)
                    else risk_none)\<rparr>"
  have "checkContentSafetyTry api content = Inr a"
    unfolding a_def hr_def fc_def using assms(3) by (rule checkContentSafetyTry_result)
  then have run: "checkContentSafety key api content contentType = Inr a"
    using assms(1,2) by (simp add: checkContentSafety_configured)
  have f: "flags a = fc" and s: "isSafe a = (\<not> flagged result)"
    and r: "riskLevel a = (if flagged result then
                      (if hr then risk_high
                       else if length fc > 2 then risk_high
                       else if length fc > 0 then risk_medium
                       else risk_none)
                    else risk_none)"
    by (simp_all add: a_def)
  have hr': "hr = (\<exists>c \<in> set fc. c \<in> {''sexual/minors'', ''violence/graphic'',
                  ''self-harm/intent'', ''self-harm/instructions''})"
    unfolding hr_def set_highRiskCategories ..
  have "flags a = map fst (filter snd (categories result))"
    by (simp add: f fc_def)
  moreover have "flagged result \<and> (hr \<or> length fc > 2) \<longrightarrow> riskLevel a = risk_high \<and> \<not> isSafe a"
    by (simp add: r s)
  moreover have "flagged result \<and> \<not> hr \<and> (length fc = 1 \<or> length fc = 2)
                 \<longrightarrow> riskLevel a = risk_medium \<and> \<not> isSafe a"
    by (auto simp: r s)
  moreover have "flagged result \<and> fc = [] \<longrightarrow> riskLevel a = risk_none \<and> \<not> isSafe a"
    by (auto simp: r s hr_def)
  moreover have "\<not> flagged result \<longrightarrow> riskLevel a = risk_none \<and> isSafe a"
    by (simp add: r s)
  ultimately show ?thesis
    unfolding hr' using run unfolding f [symmetric] by blast
qed

theorem checkContentSafety_riskLevel_witness:
  "checkContentSafety (Some ''sk-live'')
     (\<lambda>t. HttpResponse True (JsonData (Some
        \<lparr>categories = [(''hate'', True), (''sexual'', False), (''violence/graphic'', True)],
         flagged = True\<rparr>)))
     ''some text'' post
   = Inr \<lparr>isSafe = False, flags = [''hate'', ''violence/graphic''], riskLevel = risk_high\<rparr>"
proof -
  have m: "''violence/graphic'' \<in> {''sexual/minors'', ''violence/graphic'',
                  ''self-harm/intent'', ''self-harm/instructions''}"
    by simp
  from checkContentSafety_riskLevel
         [of "Some ''sk-live''"
             "\<lambda>t. HttpResponse True (JsonData (Some
                \<lparr>categories = [(''hate'', True), (''sexual'', False), (''violence/graphic'', True)],
                 flagged = True\<rparr>))"
             "''some text''"
             "\<lparr>categories = [(''hate'', True), (''sexual'', False), (''violence/graphic'', True)],
               flagged = True\<rparr>"
             post]
  obtain a where a: "checkContentSafety (Some ''sk-live'')
     (\<lambda>t. HttpResponse True (JsonData (Some
        \<lparr>categories = [(''hate'', True), (''sexual'', False), (''violence/graphic'', True)],
         flagged = True\<rparr>)))
     ''some text'' post = Inr a"
    and fl: "flags a = [''hate'', ''violence/graphic'']"
    and hi: "(\<exists>c \<in> set (flags a). c \<in> {''sexual/minors'', ''violence/graphic'',
                  ''self-harm/intent'', ''self-harm/instructions''})
             \<or> length (flags a) > 2 \<longrightarrow> riskLevel a = risk_high \<and> \<not> isSafe a"
    by force
  have "\<exists>c \<in> set (flags a). c \<in> {''sexual/minors'', ''violence/graphic'',
                  ''self-harm/intent'', ''self-harm/instructions''}"
    unfolding fl using m by (intro bexI [of _ "''violence/graphic''"]) simp_all
  with hi have "riskLevel a = risk_high" and "\<not> isSafe a" by blast+
  with a fl show ?thesis by (cases a) simp
qed

section \<open>Moderation workflow: the steps of the \<open>try\<close> blocks\<close>

lemma insert_moderationQueue_simps:
  "videos (insert_moderationQueue now cid ctype reason prio d) = videos d"
  "posts (insert_moderationQueue now cid ctype reason prio d) = posts d"
  "auditLog (insert_moderationQueue now cid ctype reason prio d) = auditLog d"
  "contentTrending (insert_moderationQueue now cid ctype reason prio d) = contentTrending d"
  "moderationQueue (insert_moderationQueue now cid ctype reason prio d)
     = moderationQueue d @
         [\<lparr>q_id = next_id (map q_id (moderationQueue d)), q_contentId = cid,
           q_contentType = ctype, q_aiFlaggedReason = Some reason, q_priority = prio,
           q_createdAt = now, q_status = pending\<rparr>]"
  by (simp_all add: insert_moderationQueue_def)

lemma insert_auditLog_simps:
  "videos (insert_auditLog now action actor cid ctype ch d) = videos d"
  "posts (insert_auditLog now action actor cid ctype ch d) = posts d"
  "moderationQueue (insert_auditLog now action actor cid ctype ch d) = moderationQueue d"
  "contentTrending (insert_auditLog now action actor cid ctype ch d) = contentTrending d"
  "auditLog (insert_auditLog now action actor cid ctype ch d)
     = auditLog d @
         [\<lparr>a_id = next_id (map a_id (auditLog d)), a_action = action, a_actorId = Some actor,
           a_contentId = Some cid, a_contentType = Some ctype, a_changes = Some ch,
           a_timestamp = now\<rparr>]"
  by (simp_all add: insert_auditLog_def)

lemma updated_rows:
  assumes "v \<in> set (map (\<lambda>x. if key x = k then g x else x) xs)" and "key v = k"
    and "\<And>x. key x = k \<Longrightarrow> P (g x)"
  shows "P v"
  using assms by auto

lemma attempt_ok: "faults site = None \<Longrightarrow> attempt faults site write d = Inr (write d)"
  by (simp add: attempt_def)

lemma attempt_fault: "faults site = Some e \<Longrightarrow> attempt faults site write d = Inl (e, d)"
  by (simp add: attempt_def)

lemma attempt_Inl:
  "attempt faults site write d = Inl (e, d') \<Longrightarrow> d' = d \<and> faults site = Some e"
  by (cases "faults site") (simp_all add: attempt_def)

lemma attempt_Inr:
  "attempt faults site write d = Inr d' \<Longrightarrow> d' = write d \<and> faults site = None"
  by (cases "faults site") (simp_all add: attempt_def)

text \<open>What a step leaves when it throws and when it does not.\<close>

lemma videoQueueStep_Inl:
  "videoQueueStep faults now nts analysis safety videoId d = Inl (e, d') \<Longrightarrow> d' = d"
  by (auto simp: videoQueueStep_def split: if_splits dest: attempt_Inl)

lemma videoQueueStep_Inr:
  assumes "videoQueueStep faults now nts analysis safety videoId d = Inr d1"
  shows "videos d1 = videos d" and "posts d1 = posts d"
  using assms
  by (auto simp: videoQueueStep_def insert_moderationQueue_simps split: if_splits
           dest!: attempt_Inr)

lemma postQueueStep_Inl:
  "postQueueStep faults now safety postId d = Inl (e, d') \<Longrightarrow> d' = d"
  by (auto simp: postQueueStep_def split: if_splits dest: attempt_Inl)

lemma postQueueStep_Inr:
  assumes "postQueueStep faults now safety postId d = Inr d1"
  shows "videos d1 = videos d" and "posts d1 = posts d"
  using assms
  by (auto simp: postQueueStep_def insert_moderationQueue_simps split: if_splits
           dest!: attempt_Inr)

lemma videoUpdateStep_Inr:
  assumes "videoUpdateStep faults nts analysis safety ms positivity videoId d = Inr d2"
  shows "\<exists>score. storeInteger nts positivity = Inr score \<and> faults RowUpdate = None
           \<and> d2 = d\<lparr>videos := map (\<lambda>v. if v_id v = videoId
                       then v\<lparr>v_elementCategory := elementType analysis,
                              v_aiAnalysisResult := Some analysis,
                              v_safetyAssessment := Some safety,
                              v_moderationStatus := Some ms,
                              v_uploadStatus := spec_publishStatus ms,
                              v_positivityScore := Some score\<rparr>
                       else v) (videos d)\<rparr>"
proof (cases "storeInteger nts positivity")
  case (Inl e)
  with assms show ?thesis by (simp add: videoUpdateStep_def)
next
  case (Inr score)
  have pub: "(if ms = auto_approved then Published else if ms = rejected then Flagged
              else Under_Review) = spec_publishStatus ms"
    by (cases ms) simp_all
  from assms Inr have "attempt faults RowUpdate
            (\<lambda>d. d\<lparr>videos := map (\<lambda>v. if v_id v = videoId
                       then v\<lparr>v_elementCategory := elementType analysis,
                              v_aiAnalysisResult := Some analysis,
                              v_safetyAssessment := Some safety,
                              v_moderationStatus := Some ms,
                              v_uploadStatus := spec_publishStatus ms,
                              v_positivityScore := Some score\<rparr>
                       else v) (videos d)\<rparr>) d = Inr d2"
    unfolding pub [symmetric] by (simp add: videoUpdateStep_def)
  from attempt_Inr [OF this] Inr show ?thesis by simp
qed

lemma videoUpdateStep_Inl:
  "videoUpdateStep faults nts analysis safety ms positivity videoId d = Inl (e, d') \<Longrightarrow> d' = d"
  by (cases "storeInteger nts positivity")
     (auto simp: videoUpdateStep_def dest: attempt_Inl)

lemma postUpdateStep_Inr:
  assumes "postUpdateStep faults nts analysis safety ms positivity postId d = Inr d2"
  shows "\<exists>score. storeInteger nts positivity = Inr score \<and> faults RowUpdate = None
           \<and> d2 = d\<lparr>posts := map (\<lambda>p. if p_id p = postId
                       then p\<lparr>p_elementCategory := Some (elementType analysis),
                              p_safetyAssessment := Some safety,
                              p_moderationStatus := Some ms,
                              p_uploadStatus := Some (spec_publishStatus ms),
                              p_positivityScore := Some score\<rparr>
                       else p) (posts d)\<rparr>"
proof (cases "storeInteger nts positivity")
  case (Inl e)
  with assms show ?thesis by (simp add: postUpdateStep_def)
next
  case (Inr score)
  have pub: "(if ms = auto_approved then Published else if ms = rejected then Flagged
              else Under_Review) = spec_publishStatus ms"
    by (cases ms) simp_all
  from assms Inr have "attempt faults RowUpdate
            (\<lambda>d. d\<lparr>posts := map (\<lambda>p. if p_id p = postId
                       then p\<lparr>p_elementCategory := Some (elementType analysis),
                              p_safetyAssessment := Some safety,
                              p_moderationStatus := Some ms,
                              p_uploadStatus := Some (spec_publishStatus ms),
                              p_positivityScore := Some score\<rparr>
                       else p) (posts d)\<rparr>) d = Inr d2"
    unfolding pub [symmetric] by (simp add: postUpdateStep_def)
  from attempt_Inr [OF this] Inr show ?thesis by simp
qed

lemma postUpdateStep_Inl:
  "postUpdateStep faults nts analysis safety ms positivity postId d = Inl (e, d') \<Longrightarrow> d' = d"
  by (cases "storeInteger nts positivity")
     (auto simp: postUpdateStep_def dest: attempt_Inl)

lemma auditStep_Inr:
  assumes "auditStep faults now actor cid ctype analysis safety ms positivity d = Inr d3"
  shows "faults AuditInsert = None" and "videos d3 = videos d" and "posts d3 = posts d"
    and "moderationQueue d3 = moderationQueue d"
  using attempt_Inr [OF assms [unfolded auditStep_def]]
  by (simp_all add: insert_auditLog_simps)

lemma auditStep_Inl:
  "auditStep faults now actor cid ctype analysis safety ms positivity d = Inl (e, d') \<Longrightarrow> d' = d"
  unfolding auditStep_def by (auto dest: attempt_Inl)

lemma videoUploadCatch_tables:
  "videos (fst (videoUploadCatch now e videoId d))
     = map (\<lambda>v. if v_id v = videoId
              then v\<lparr>v_moderationStatus := Some requires_review, v_uploadStatus := Under_Review\<rparr>
              else v) (videos d)"
  "moderationQueue (fst (videoUploadCatch now e videoId d))
     = moderationQueue d @
         [\<lparr>q_id = next_id (map q_id (moderationQueue d)), q_contentId = videoId,
           q_contentType = video,
           q_aiFlaggedReason = Some (''Processing error: '' @ errorMessage e),
           q_priority = high, q_createdAt = now, q_status = pending\<rparr>]"
  "status (snd (videoUploadCatch now e videoId d)) = requires_review"
  by (simp_all add: videoUploadCatch_def Let_def insert_moderationQueue_simps)

lemma postCreationCatch_tables:
  "posts (fst (postCreationCatch e postId d))
     = map (\<lambda>p. if p_id p = postId
              then p\<lparr>p_moderationStatus := Some requires_review,
                     p_uploadStatus := Some Under_Review\<rparr>
              else p) (posts d)"
  "moderationQueue (fst (postCreationCatch e postId d)) = moderationQueue d"
  "auditLog (fst (postCreationCatch e postId d)) = auditLog d"
  "status (snd (postCreationCatch e postId d)) = requires_review"
  by (simp_all add: postCreationCatch_def Let_def)

lemma processVideoUpload_thrown:
  "videoUploadTry faults now nts analysisR safetyR positivityR videoId actor d = Inl (e, d') \<Longrightarrow>
   processVideoUpload faults now nts analysisR safetyR positivityR videoId actor d
     = videoUploadCatch now e videoId d'"
  by (simp add: processVideoUpload_def)

lemma processVideoUpload_done:
  "videoUploadTry faults now nts analysisR safetyR positivityR videoId actor d = Inr r \<Longrightarrow>
   processVideoUpload faults now nts analysisR safetyR positivityR videoId actor d = r"
  by (simp add: processVideoUpload_def)

lemma processPostCreation_thrown:
  "postCreationTry faults now nts analysisR safetyR positivityR postId actor d = Inl (e, d') \<Longrightarrow>
   processPostCreation faults now nts analysisR safetyR positivityR postId actor d
     = postCreationCatch e postId d'"
  by (simp add: processPostCreation_def)

lemma processPostCreation_done:
  "postCreationTry faults now nts analysisR safetyR positivityR postId actor d = Inr r \<Longrightarrow>
   processPostCreation faults now nts analysisR safetyR positivityR postId actor d = r"
  by (simp add: processPostCreation_def)

lemma videoUploadTry_stage_throws:
  "videoUploadTry faults now nts (Inl e) safetyR positivityR videoId actor d = Inl (e, d)"
  "videoUploadTry faults now nts (Inr analysis) (Inl e) positivityR videoId actor d = Inl (e, d)"
  "videoUploadTry faults now nts (Inr analysis) (Inr safety) (Inl e) videoId actor d = Inl (e, d)"
  by (simp_all add: videoUploadTry_def)

lemma postCreationTry_stage_throws:
  "postCreationTry faults now nts (Inl e) safetyR positivityR postId actor d = Inl (e, d)"
  "postCreationTry faults now nts (Inr analysis) (Inl e) positivityR postId actor d = Inl (e, d)"
  "postCreationTry faults now nts (Inr analysis) (Inr safety) (Inl e) postId actor d = Inl (e, d)"
  by (simp_all add: postCreationTry_def)

text \<open>When the \<open>try\<close> block reaches its end, every step before has gone through.\<close>

lemma videoUploadTry_Inr:
  assumes "videoUploadTry faults now nts analysisR safetyR positivityR videoId actor d
             = Inr (d3, out)"
  obtains analysis safety positivity d1 score where
    "analysisR = Inr analysis" "safetyR = Inr safety" "positivityR = Inr positivity"
    "videoQueueStep faults now nts analysis safety videoId d = Inr d1"
    "storeInteger nts positivity = Inr score"
    "faults RowUpdate = None" "faults AuditInsert = None"
    "out = \<lparr>success = True, status = videoModerationStatus analysis safety\<rparr>"
    "videos d3 = map (\<lambda>v. if v_id v = videoId
                       then v\<lparr>v_elementCategory := elementType analysis,
                              v_aiAnalysisResult := Some analysis,
                              v_safetyAssessment := Some safety,
                              v_moderationStatus := Some (videoModerationStatus analysis safety),
                              v_uploadStatus :=
                                spec_publishStatus (videoModerationStatus analysis safety),
                              v_positivityScore := Some score\<rparr>
                       else v) (videos d)"
    "moderationQueue d3 = moderationQueue d1"
proof -
  from assms obtain analysis where a: "analysisR = Inr analysis"
    by (cases analysisR) (simp_all add: videoUploadTry_def)
  from assms a obtain safety where s: "safetyR = Inr safety"
    by (cases safetyR) (simp_all add: videoUploadTry_def)
  from assms a s obtain positivity where p: "positivityR = Inr positivity"
    by (cases positivityR) (simp_all add: videoUploadTry_def)
  let ?ms = "videoModerationStatus analysis safety"
  from assms a s p obtain d1 where q: "videoQueueStep faults now nts analysis safety videoId d = Inr d1"
    by (cases "videoQueueStep faults now nts analysis safety videoId d")
       (simp_all add: videoUploadTry_def Let_def)
  from assms a s p q obtain d2 where
    u: "videoUpdateStep faults nts analysis safety ?ms positivity videoId d1 = Inr d2"
    by (cases "videoUpdateStep faults nts analysis safety ?ms positivity videoId d1")
       (simp_all add: videoUploadTry_def Let_def)
  from assms a s p q u have
    au: "auditStep faults now actor videoId video analysis safety ?ms positivity d2 = Inr d3"
    and out: "out = \<lparr>success = True, status = ?ms\<rparr>"
    by (cases "auditStep faults now actor videoId video analysis safety ?ms positivity d2";
        simp add: videoUploadTry_def Let_def)+
  from videoUpdateStep_Inr [OF u] obtain score where
    sc: "storeInteger nts positivity = Inr score" "faults RowUpdate = None"
    and d2: "d2 = d1\<lparr>videos := map (\<lambda>v. if v_id v = videoId
                       then v\<lparr>v_elementCategory := elementType analysis,
                              v_aiAnalysisResult := Some analysis,
                              v_safetyAssessment := Some safety,
                              v_moderationStatus := Some ?ms,
                              v_uploadStatus := spec_publishStatus ?ms,
                              v_positivityScore := Some score\<rparr>
                       else v) (videos d1)\<rparr>"
    by blast
  have "videos d3 = videos d2" "moderationQueue d3 = moderationQueue d2"
    "faults AuditInsert = None"
    using auditStep_Inr [OF au] by simp_all
  moreover have "videos d1 = videos d" using videoQueueStep_Inr [OF q] by simp
  ultimately show ?thesis
    using that [OF a s p q sc(1) sc(2) _ out] d2 by simp
qed

lemma postCreationTry_Inr:
  assumes "postCreationTry faults now nts analysisR safetyR positivityR postId actor d
             = Inr (d3, out)"
  obtains analysis safety positivity d1 score where
    "analysisR = Inr analysis" "safetyR = Inr safety" "positivityR = Inr positivity"
    "postQueueStep faults now safety postId d = Inr d1"
    "storeInteger nts positivity = Inr score"
    "faults RowUpdate = None" "faults AuditInsert = None"
    "out = \<lparr>success = True, status = postModerationStatus safety\<rparr>"
    "posts d3 = map (\<lambda>p. if p_id p = postId
                       then p\<lparr>p_elementCategory := Some (elementType analysis),
                              p_safetyAssessment := Some safety,
                              p_moderationStatus := Some (postModerationStatus safety),
                              p_uploadStatus :=
                                Some (spec_publishStatus (postModerationStatus safety)),
                              p_positivityScore := Some score\<rparr>
                       else p) (posts d)"
    "moderationQueue d3 = moderationQueue d1"
proof -
  from assms obtain analysis where a: "analysisR = Inr analysis"
    by (cases analysisR) (simp_all add: postCreationTry_def)
  from assms a obtain safety where s: "safetyR = Inr safety"
    by (cases safetyR) (simp_all add: postCreationTry_def)
  from assms a s obtain positivity where p: "positivityR = Inr positivity"
    by (cases positivityR) (simp_all add: postCreationTry_def)
  let ?ms = "postModerationStatus safety"
  from assms a s p obtain d1 where q: "postQueueStep faults now safety postId d = Inr d1"
    by (cases "postQueueStep faults now safety postId d")
       (simp_all add: postCreationTry_def Let_def)
  from assms a s p q obtain d2 where
    u: "postUpdateStep faults nts analysis safety ?ms positivity postId d1 = Inr d2"
    by (cases "postUpdateStep faults nts analysis safety ?ms positivity postId d1")
       (simp_all add: postCreationTry_def Let_def)
  from assms a s p q u have
    au: "auditStep faults now actor postId post analysis safety ?ms positivity d2 = Inr d3"
    and out: "out = \<lparr>success = True, status = ?ms\<rparr>"
    by (cases "auditStep faults now actor postId post analysis safety ?ms positivity d2";
        simp add: postCreationTry_def Let_def)+
  from postUpdateStep_Inr [OF u] obtain score where
    sc: "storeInteger nts positivity = Inr score" "faults RowUpdate = None"
    and d2: "d2 = d1\<lparr>posts := map (\<lambda>p. if p_id p = postId
                       then p\<lparr>p_elementCategory := Some (elementType analysis),
                              p_safetyAssessment := Some safety,
                              p_moderationStatus := Some ?ms,
                              p_uploadStatus := Some (spec_publishStatus ?ms),
                              p_positivityScore := Some score\<rparr>
                       else p) (posts d1)\<rparr>"
    by blast
  have "posts d3 = posts d2" "moderationQueue d3 = moderationQueue d2"
    "faults AuditInsert = None"
    using auditStep_Inr [OF au] by simp_all
  moreover have "posts d1 = posts d" using postQueueStep_Inr [OF q] by simp
  ultimately show ?thesis
    using that [OF a s p q sc(1) sc(2) _ out] d2 by simp
qed

lemma processVideoUpload_rows:
  assumes "v \<in> set (videos (fst (processVideoUpload faults now nts analysisR safetyR positivityR
                                    videoId actor d)))"
    and "v_id v = videoId"
  shows "map_option spec_publishStatus (v_moderationStatus v) = Some (v_uploadStatus v)"
proof (cases "videoUploadTry faults now nts analysisR safetyR positivityR videoId actor d")
  case (Inl x)
  obtain e d' where "x = (e, d')" by (cases x) auto
  with Inl assms(1) have "v \<in> set (map (\<lambda>v. if v_id v = videoId
              then v\<lparr>v_moderationStatus := Some requires_review, v_uploadStatus := Under_Review\<rparr>
              else v) (videos d'))"
    by (simp add: processVideoUpload_thrown videoUploadCatch_tables)
  then show ?thesis
    using assms(2) by (rule updated_rows) simp
next
  case (Inr r)
  obtain d3 out where r: "r = (d3, out)" by (cases r) auto
  from Inr r have t: "videoUploadTry faults now nts analysisR safetyR positivityR videoId actor d
                        = Inr (d3, out)" by simp
  from t have run: "processVideoUpload faults now nts analysisR safetyR positivityR videoId actor d
                      = (d3, out)" by (rule processVideoUpload_done)
  from t show ?thesis
  proof (rule videoUploadTry_Inr)
    fix analysis safety score
    assume "videos d3 = map (\<lambda>v. if v_id v = videoId
                       then v\<lparr>v_elementCategory := elementType analysis,
                              v_aiAnalysisResult := Some analysis,
                              v_safetyAssessment := Some safety,
                              v_moderationStatus := Some (videoModerationStatus analysis safety),
                              v_uploadStatus :=
                                spec_publishStatus (videoModerationStatus analysis safety),
                              v_positivityScore := Some score\<rparr>
                       else v) (videos d)"
    with assms(1) run have "v \<in> set (map (\<lambda>v. if v_id v = videoId
                       then v\<lparr>v_elementCategory := elementType analysis,
                              v_aiAnalysisResult := Some analysis,
                              v_safetyAssessment := Some safety,
                              v_moderationStatus := Some (videoModerationStatus analysis safety),
                              v_uploadStatus :=
                                spec_publishStatus (videoModerationStatus analysis safety),
                              v_positivityScore := Some score\<rparr>
                       else v) (videos d))"
      by simp
    then show ?thesis
      using assms(2) by (rule updated_rows) simp
  qed
qed

lemma processPostCreation_rows:
  assumes "p \<in> set (posts (fst (processPostCreation faults now nts analysisR safetyR positivityR
                                    postId actor d)))"
    and "p_id p = postId"
  shows "p_uploadStatus p \<noteq> None
       \<and> map_option spec_publishStatus (p_moderationStatus p) = p_uploadStatus p"
proof (cases "postCreationTry faults now nts analysisR safetyR positivityR postId actor d")
  case (Inl x)
  obtain e d' where "x = (e, d')" by (cases x) auto
  with Inl assms(1) have "p \<in> set (map (\<lambda>p. if p_id p = postId
              then p\<lparr>p_moderationStatus := Some requires_review,
                     p_uploadStatus := Some Under_Review\<rparr>
              else p) (posts d'))"
    by (simp add: processPostCreation_thrown postCreationCatch_tables)
  then show ?thesis
    using assms(2) by (rule updated_rows) simp
next
  case (Inr r)
  obtain d3 out where r: "r = (d3, out)" by (cases r) auto
  from Inr r have t: "postCreationTry faults now nts analysisR safetyR positivityR postId actor d
                        = Inr (d3, out)" by simp
  from t have run: "processPostCreation faults now nts analysisR safetyR positivityR postId actor d
                      = (d3, out)" by (rule processPostCreation_done)
  from t show ?thesis
  proof (rule postCreationTry_Inr)
    fix analysis safety score
    assume "posts d3 = map (\<lambda>p. if p_id p = postId
                       then p\<lparr>p_elementCategory := Some (elementType analysis),
                              p_safetyAssessment := Some safety,
                              p_moderationStatus := Some (postModerationStatus safety),
                              p_uploadStatus :=
                                Some (spec_publishStatus (postModerationStatus safety)),
                              p_positivityScore := Some score\<rparr>
                       else p) (posts d)"
    with assms(1) run have "p \<in> set (map (\<lambda>p. if p_id p = postId
                       then p\<lparr>p_elementCategory := Some (elementType analysis),
                              p_safetyAssessment := Some safety,
                              p_moderationStatus := Some (postModerationStatus safety),
                              p_uploadStatus :=
                                Some (spec_publishStatus (postModerationStatus safety)),
                              p_positivityScore := Some score\<rparr>
                       else p) (posts d))"
      by simp
    then show ?thesis
      using assms(2) by (rule updated_rows) simp
  qed
qed

lemma resolveModeration_tables:
  "videos (resolveModeration now contentId contentType decision notes moderator d)
     = (if contentType = video
        then map (\<lambda>v. if v_id v = contentId
               then v\<lparr>v_moderationStatus :=
                        Some (if decision = decision_approved then auto_approved else rejected),
                      v_uploadStatus :=
                        (if decision = decision_approved then Published else Flagged),
                      v_moderationNotes :=
                        (case notes of None \<Rightarrow> v_moderationNotes v | Some n \<Rightarrow> Some n),
                      v_moderatedBy := Some moderator,
                      v_moderatedAt := Some now\<rparr>
               else v) (videos d)
        else videos d)"
  "posts (resolveModeration now contentId contentType decision notes moderator d)
     = (if contentType = video then posts d
        else map (\<lambda>p. if p_id p = contentId
               then p\<lparr>p_moderationStatus :=
                        Some (if decision = decision_approved then auto_approved else rejected),
                      p_uploadStatus :=
                        Some (if decision = decision_approved then Published else Flagged)\<rparr>
               else p) (posts d))"
  "moderationQueue (resolveModeration now contentId contentType decision notes moderator d)
     = map (\<lambda>q. if q_contentId q = contentId then q\<lparr>q_status := resolved\<rparr> else q)
         (moderationQueue d)"
  "auditLog (resolveModeration now contentId contentType decision notes moderator d)
     = auditLog d @
         [\<lparr>a_id = next_id (map a_id (auditLog d)),
           a_action = (if decision = decision_approved then publish else reject),
           a_actorId = Some moderator, a_contentId = Some contentId,
           a_contentType = Some contentType,
           a_changes = Some (DecisionChanges decision notes), a_timestamp = now\<rparr>]"
  "contentTrending (resolveModeration now contentId contentType decision notes moderator d)
     = contentTrending d"
  by (simp_all add: resolveModeration_def Let_def insert_auditLog_simps)

text \<open>The run in which no stage and no write throws.\<close>

lemma videoQueueStep_ok:
  "faults QueueInsert = None \<Longrightarrow>
   videoQueueStep faults now nts analysis safety videoId d
     = Inr (if \<not> isSafe safety then
              insert_moderationQueue now videoId video (join '', '' (flags safety))
                (if riskLevel safety = risk_high then urgent else high) d
            else if js_lt (confidence analysis) (Num (1 / 2)) then
              insert_moderationQueue now videoId video
                (''Low categorization confidence: '' @ nts (confidence analysis)) normal d
            else d)"
  by (simp add: videoQueueStep_def attempt_ok)

lemma postQueueStep_ok:
  "faults QueueInsert = None \<Longrightarrow>
   postQueueStep faults now safety postId d
     = Inr (if \<not> isSafe safety then
              insert_moderationQueue now postId post (join '', '' (flags safety))
                (if riskLevel safety = risk_high then urgent else high) d
            else d)"
  by (simp add: postQueueStep_def attempt_ok)

lemma publish_expression:
  "(if ms = auto_approved then Published else if ms = rejected then Flagged else Under_Review)
     = spec_publishStatus ms"
  by (cases ms) simp_all

lemma videoUpdateStep_ok:
  "faults RowUpdate = None \<Longrightarrow> storeInteger nts positivity = Inr score \<Longrightarrow>
   videoUpdateStep faults nts analysis safety ms positivity videoId d
     = Inr (d\<lparr>videos := map (\<lambda>v. if v_id v = videoId
                       then v\<lparr>v_elementCategory := elementType analysis,
                              v_aiAnalysisResult := Some analysis,
                              v_safetyAssessment := Some safety,
                              v_moderationStatus := Some ms,
                              v_uploadStatus := spec_publishStatus ms,
                              v_positivityScore := Some score\<rparr>
                       else v) (videos d)\<rparr>)"
  unfolding publish_expression [symmetric] by (simp add: videoUpdateStep_def attempt_ok)

lemma postUpdateStep_ok:
  "faults RowUpdate = None \<Longrightarrow> storeInteger nts positivity = Inr score \<Longrightarrow>
   postUpdateStep faults nts analysis safety ms positivity postId d
     = Inr (d\<lparr>posts := map (\<lambda>p. if p_id p = postId
                       then p\<lparr>p_elementCategory := Some (elementType analysis),
                              p_safetyAssessment := Some safety,
                              p_moderationStatus := Some ms,
                              p_uploadStatus := Some (spec_publishStatus ms),
                              p_positivityScore := Some score\<rparr>
                       else p) (posts d)\<rparr>)"
  unfolding publish_expression [symmetric] by (simp add: postUpdateStep_def attempt_ok)

lemma auditStep_ok:
  "faults AuditInsert = None \<Longrightarrow>
   auditStep faults now actor cid ctype analysis safety ms positivity d
     = Inr (insert_auditLog now (if ms = auto_approved then publish else moderate)
              actor cid ctype (PipelineChanges analysis safety ms positivity) d)"
  by (simp add: auditStep_def attempt_ok)

lemma videoUploadTry_accepted:
  assumes "\<forall>site. faults site = None" and "storeInteger nts positivity = Inr score"
  shows "videoUploadTry faults now nts (Inr analysis) (Inr safety) (Inr positivity) videoId actor d
    = Inr (insert_auditLog now
             (if videoModerationStatus analysis safety = auto_approved then publish else moderate)
             actor videoId video
             (PipelineChanges analysis safety (videoModerationStatus analysis safety) positivity)
             ((if \<not> isSafe safety then
                 insert_moderationQueue now videoId video (join '', '' (flags safety))
                   (if riskLevel safety = risk_high then urgent else high) d
               else if js_lt (confidence analysis) (Num (1 / 2)) then
                 insert_moderationQueue now videoId video
                   (''Low categorization confidence: '' @ nts (confidence analysis)) normal d
               else d)
              \<lparr>videos := map (\<lambda>v. if v_id v = videoId
                       then v\<lparr>v_elementCategory := elementType analysis,
                              v_aiAnalysisResult := Some analysis,
                              v_safetyAssessment := Some safety,
                              v_moderationStatus := Some (videoModerationStatus analysis safety),
                              v_uploadStatus :=
                                spec_publishStatus (videoModerationStatus analysis safety),
                              v_positivityScore := Some score\<rparr>
                       else v) (videos d)\<rparr>),
           \<lparr>success = True, status = videoModerationStatus analysis safety\<rparr>)"
proof -
  have f: "faults QueueInsert = None" "faults RowUpdate = None" "faults AuditInsert = None"
    using assms(1) by simp_all
  have v: "videos (if \<not> isSafe safety then
                 insert_moderationQueue now videoId video (join '', '' (flags safety))
                   (if riskLevel safety = risk_high then urgent else high) d
               else if js_lt (confidence analysis) (Num (1 / 2)) then
                 insert_moderationQueue now videoId video
                   (''Low categorization confidence: '' @ nts (confidence analysis)) normal d
               else d) = videos d"
    by (simp add: insert_moderationQueue_simps)
  show ?thesis
    unfolding videoUploadTry_def Let_def
    by (simp only: sum.case videoQueueStep_ok [of faults, OF f(1)] videoUpdateStep_ok [of faults, OF f(2) assms(2)]
          auditStep_ok [of faults, OF f(3)] v)
qed

lemma postCreationTry_accepted:
  assumes "\<forall>site. faults site = None" and "storeInteger nts positivity = Inr score"
  shows "postCreationTry faults now nts (Inr analysis) (Inr safety) (Inr positivity) postId actor d
    = Inr (insert_auditLog now
             (if postModerationStatus safety = auto_approved then publish else moderate)
             actor postId post
             (PipelineChanges analysis safety (postModerationStatus safety) positivity)
             ((if \<not> isSafe safety then
                 insert_moderationQueue now postId post (join '', '' (flags safety))
                   (if riskLevel safety = risk_high then urgent else high) d
               else d)
              \<lparr>posts := map (\<lambda>p. if p_id p = postId
                       then p\<lparr>p_elementCategory := Some (elementType analysis),
                              p_safetyAssessment := Some safety,
                              p_moderationStatus := Some (postModerationStatus safety),
                              p_uploadStatus :=
                                Some (spec_publishStatus (postModerationStatus safety)),
                              p_positivityScore := Some score\<rparr>
                       else p) (posts d)\<rparr>),
           \<lparr>success = True, status = postModerationStatus safety\<rparr>)"
proof -
  have f: "faults QueueInsert = None" "faults RowUpdate = None" "faults AuditInsert = None"
    using assms(1) by simp_all
  have v: "posts (if \<not> isSafe safety then
                 insert_moderationQueue now postId post (join '', '' (flags safety))
                   (if riskLevel safety = risk_high then urgent else high) d
               else d) = posts d"
    by (simp add: insert_moderationQueue_simps)
  show ?thesis
    unfolding postCreationTry_def Let_def
    by (simp only: sum.case postQueueStep_ok [of faults, OF f(1)] postUpdateStep_ok [of faults, OF f(2) assms(2)]
          auditStep_ok [of faults, OF f(3)] v)
qed

lemma processVideoUpload_accepted:
  assumes "\<forall>site. faults site = None" and "storeInteger nts positivity = Inr score"
  shows "status (snd (processVideoUpload faults now nts (Inr analysis) (Inr safety)
                        (Inr positivity) videoId actor d))
           = videoModerationStatus analysis safety"
    and "success (snd (processVideoUpload faults now nts (Inr analysis) (Inr safety)
                        (Inr positivity) videoId actor d))"
    and "moderationQueue (fst (processVideoUpload faults now nts (Inr analysis) (Inr safety)
                        (Inr positivity) videoId actor d))
           = (if \<not> isSafe safety then
                moderationQueue d @
                  [\<lparr>q_id = next_id (map q_id (moderationQueue d)), q_contentId = videoId,
                    q_contentType = video, q_aiFlaggedReason = Some (join '', '' (flags safety)),
                    q_priority = (if riskLevel safety = risk_high then urgent else high),
                    q_createdAt = now, q_status = pending\<rparr>]
              else if js_lt (confidence analysis) (Num (1 / 2)) then
                moderationQueue d @
                  [\<lparr>q_id = next_id (map q_id (moderationQueue d)), q_contentId = videoId,
                    q_contentType = video,
                    q_aiFlaggedReason =
                      Some (''Low categorization confidence: '' @ nts (confidence analysis)),
                    q_priority = normal, q_createdAt = now, q_status = pending\<rparr>]
              else moderationQueue d)"
    and "videos (fst (processVideoUpload faults now nts (Inr analysis) (Inr safety)
                        (Inr positivity) videoId actor d))
           = map (\<lambda>v. if v_id v = videoId
                       then v\<lparr>v_elementCategory := elementType analysis,
                              v_aiAnalysisResult := Some analysis,
                              v_safetyAssessment := Some safety,
                              v_moderationStatus := Some (videoModerationStatus analysis safety),
                              v_uploadStatus :=
                                spec_publishStatus (videoModerationStatus analysis safety),
                              v_positivityScore := Some score\<rparr>
                       else v) (videos d)"
  unfolding processVideoUpload_done [OF videoUploadTry_accepted [OF assms]]
  by (simp_all add: insert_auditLog_simps insert_moderationQueue_simps)

lemma processPostCreation_accepted:
  assumes "\<forall>site. faults site = None" and "storeInteger nts positivity = Inr score"
  shows "status (snd (processPostCreation faults now nts (Inr analysis) (Inr safety)
                        (Inr positivity) postId actor d))
           = postModerationStatus safety"
    and "success (snd (processPostCreation faults now nts (Inr analysis) (Inr safety)
                        (Inr positivity) postId actor d))"
    and "moderationQueue (fst (processPostCreation faults now nts (Inr analysis) (Inr safety)
                        (Inr positivity) postId actor d))
           = (if \<not> isSafe safety then
                moderationQueue d @
                  [\<lparr>q_id = next_id (map q_id (moderationQueue d)), q_contentId = postId,
                    q_contentType = post, q_aiFlaggedReason = Some (join '', '' (flags safety)),
                    q_priority = (if riskLevel safety = risk_high then urgent else high),
                    q_createdAt = now, q_status = pending\<rparr>]
              else moderationQueue d)"
    and "posts (fst (processPostCreation faults now nts (Inr analysis) (Inr safety)
                        (Inr positivity) postId actor d))
           = map (\<lambda>p. if p_id p = postId
                       then p\<lparr>p_elementCategory := Some (elementType analysis),
                              p_safetyAssessment := Some safety,
                              p_moderationStatus := Some (postModerationStatus safety),
                              p_uploadStatus :=
                                Some (spec_publishStatus (postModerationStatus safety)),
                              p_positivityScore := Some score\<rparr>
                       else p) (posts d)"
  unfolding processPostCreation_done [OF postCreationTry_accepted [OF assms]]
  by (simp_all add: insert_auditLog_simps insert_moderationQueue_simps)

text \<open>The run in which the row update or the audit insert is rejected.\<close>

lemma processVideoUpload_rejected:
  assumes "faults RowUpdate \<noteq> None \<or> faults AuditInsert \<noteq> None
           \<or> (\<exists>e. storeInteger nts positivity = Inl e)"
  shows "status (snd (processVideoUpload faults now nts analysisR safetyR (Inr positivity)
                        videoId actor d)) = requires_review"
    and "\<not> success (snd (processVideoUpload faults now nts analysisR safetyR (Inr positivity)
                        videoId actor d))"
    and "\<forall>v \<in> set (videos (fst (processVideoUpload faults now nts analysisR safetyR
                        (Inr positivity) videoId actor d))).
           v_id v = videoId \<longrightarrow> v_moderationStatus v = Some requires_review"
proof -
  have "\<exists>e d'. videoUploadTry faults now nts analysisR safetyR (Inr positivity) videoId actor d
                  = Inl (e, d')"
  proof (cases "videoUploadTry faults now nts analysisR safetyR (Inr positivity) videoId actor d")
    case (Inl x)
    then show ?thesis by (cases x) auto
  next
    case (Inr r)
    obtain d3 out where "r = (d3, out)" by (cases r) auto
    with Inr have "videoUploadTry faults now nts analysisR safetyR (Inr positivity) videoId actor d
                     = Inr (d3, out)" by simp
    then have False
    proof (rule videoUploadTry_Inr)
      fix p score
      assume "Inr positivity = (Inr p :: thrown + jsnum)" "storeInteger nts p = Inr score"
        "faults RowUpdate = None" "faults AuditInsert = None"
      with assms show False by auto
    qed
    then show ?thesis ..
  qed
  then obtain e d' where c:
    "processVideoUpload faults now nts analysisR safetyR (Inr positivity) videoId actor d
       = videoUploadCatch now e videoId d'"
    using processVideoUpload_thrown by blast
  then show "status (snd (processVideoUpload faults now nts analysisR safetyR (Inr positivity)
                        videoId actor d)) = requires_review"
    and "\<not> success (snd (processVideoUpload faults now nts analysisR safetyR (Inr positivity)
                        videoId actor d))"
    by (simp_all add: videoUploadCatch_def Let_def)
  show "\<forall>v \<in> set (videos (fst (processVideoUpload faults now nts analysisR safetyR
                        (Inr positivity) videoId actor d))).
           v_id v = videoId \<longrightarrow> v_moderationStatus v = Some requires_review"
    unfolding c videoUploadCatch_tables
  proof (intro ballI impI)
    fix v
    assume "v \<in> set (map (\<lambda>v. if v_id v = videoId
              then v\<lparr>v_moderationStatus := Some requires_review, v_uploadStatus := Under_Review\<rparr>
              else v) (videos d'))" and "v_id v = videoId"
    then show "v_moderationStatus v = Some requires_review"
      by (rule updated_rows) simp
  qed
qed

lemma processPostCreation_rejected:
  assumes "faults RowUpdate \<noteq> None \<or> faults AuditInsert \<noteq> None
           \<or> (\<exists>e. storeInteger nts positivity = Inl e)"
  shows "status (snd (processPostCreation faults now nts analysisR safetyR (Inr positivity)
                        postId actor d)) = requires_review"
    and "\<not> success (snd (processPostCreation faults now nts analysisR safetyR (Inr positivity)
                        postId actor d))"
    and "\<forall>p \<in> set (posts (fst (processPostCreation faults now nts analysisR safetyR
                        (Inr positivity) postId actor d))).
           p_id p = postId \<longrightarrow> p_moderationStatus p = Some requires_review"
proof -
  have "\<exists>e d'. postCreationTry faults now nts analysisR safetyR (Inr positivity) postId actor d
                  = Inl (e, d')"
  proof (cases "postCreationTry faults now nts analysisR safetyR (Inr positivity) postId actor d")
    case (Inl x)
    then show ?thesis by (cases x) auto
  next
    case (Inr r)
    obtain d3 out where "r = (d3, out)" by (cases r) auto
    with Inr have "postCreationTry faults now nts analysisR safetyR (Inr positivity) postId actor d
                     = Inr (d3, out)" by simp
    then have False
    proof (rule postCreationTry_Inr)
      fix p score
      assume "Inr positivity = (Inr p :: thrown + jsnum)" "storeInteger nts p = Inr score"
        "faults RowUpdate = None" "faults AuditInsert = None"
      with assms show False by auto
    qed
    then show ?thesis ..
  qed
  then obtain e d' where c:
    "processPostCreation faults now nts analysisR safetyR (Inr positivity) postId actor d
       = postCreationCatch e postId d'"
    using processPostCreation_thrown by blast
  then show "status (snd (processPostCreation faults now nts analysisR safetyR (Inr positivity)
                        postId actor d)) = requires_review"
    and "\<not> success (snd (processPostCreation faults now nts analysisR safetyR (Inr positivity)
                        postId actor d))"
    by (simp_all add: postCreationCatch_def Let_def)
  show "\<forall>p \<in> set (posts (fst (processPostCreation faults now nts analysisR safetyR
                        (Inr positivity) postId actor d))).
           p_id p = postId \<longrightarrow> p_moderationStatus p = Some requires_review"
    unfolding c postCreationCatch_tables
  proof (intro ballI impI)
    fix p
    assume "p \<in> set (map (\<lambda>p. if p_id p = postId
              then p\<lparr>p_moderationStatus := Some requires_review,
                     p_uploadStatus := Some Under_Review\<rparr>
              else p) (posts d'))" and "p_id p = postId"
    then show "p_moderationStatus p = Some requires_review"
      by (rule updated_rows) simp
  qed
qed

lemma no_faults_none: "\<forall>site. no_faults site = None"
  by (simp add: no_faults_def)

section \<open>Moderation workflow: the decision\<close>

text \<open>
  C1 (as amended). Let the three stages return. When the store accepts every write of the
  \<open>try\<close> block, for which the positivity score has to be a 32-bit integer, the
  decision depends only on the safety assessment, the classifier confidence and the
  content type, first match first. Unsafe with risk high: status rejected, and one queue
  entry of priority urgent is appended. Unsafe with another risk: requires_review, and
  one entry of priority high. For a video that is safe with confidence below 0.5:
  requires_review, and one entry of priority normal whose reason ends with the
  confidence as printed. Otherwise (a safe video with confidence not below 0.5, any safe
  post): auto_approved, and the queue is unchanged. In each case every row of the
  content id carries the returned status as its moderation status. When the store
  rejects the row update or the audit insert, as it does for a positivity score that the
  integer column does not take, the exception path decides instead: the operation
  returns requires_review and no success, and every row of the content id carries
  requires_review, whatever the assessment and the confidence.
  The operations are functions of their inputs, so equal inputs give equal outcomes.
\<close>

theorem moderation_decision_policy:
  fixes analysis :: AIAnalysisResult and safety :: SafetyAssessment
  shows
  "((\<forall>site. faults site = None) \<and> storeInteger nts positivity = Inr score \<longrightarrow>
     (\<not> isSafe safety \<and> riskLevel safety = risk_high \<longrightarrow>
        status (snd (processVideoUpload faults now nts (Inr analysis) (Inr safety)
                       (Inr positivity) contentId actor d)) = rejected
        \<and> status (snd (processPostCreation faults now nts (Inr analysis) (Inr safety)
                       (Inr positivity) contentId actor d)) = rejected
        \<and> (\<exists>q. moderationQueue (fst (processVideoUpload faults now nts (Inr analysis)
                       (Inr safety) (Inr positivity) contentId actor d)) = moderationQueue d @ [q]
                \<and> q_contentId q = contentId \<and> q_contentType q = video
                \<and> q_priority q = urgent \<and> q_status q = pending)
        \<and> (\<exists>q. moderationQueue (fst (processPostCreation faults now nts (Inr analysis)
                       (Inr safety) (Inr positivity) contentId actor d)) = moderationQueue d @ [q]
                \<and> q_contentId q = contentId \<and> q_contentType q = post
                \<and> q_priority q = urgent \<and> q_status q = pending))
     \<and> (\<not> isSafe safety \<and> riskLevel safety \<noteq> risk_high \<longrightarrow>
        status (snd (processVideoUpload faults now nts (Inr analysis) (Inr safety)
                       (Inr positivity) contentId actor d)) = requires_review
        \<and> status (snd (processPostCreation faults now nts (Inr analysis) (Inr safety)
                       (Inr positivity) contentId actor d)) = requires_review
        \<and> (\<exists>q. moderationQueue (fst (processVideoUpload faults now nts (Inr analysis)
                       (Inr safety) (Inr positivity) contentId actor d)) = moderationQueue d @ [q]
                \<and> q_contentId q = contentId \<and> q_contentType q = video
                \<and> q_priority q = high \<and> q_status q = pending)
        \<and> (\<exists>q. moderationQueue (fst (processPostCreation faults now nts (Inr analysis)
                       (Inr safety) (Inr positivity) contentId actor d)) = moderationQueue d @ [q]
                \<and> q_contentId q = contentId \<and> q_contentType q = post
                \<and> q_priority q = high \<and> q_status q = pending))
     \<and> (isSafe safety \<and> js_lt (confidence analysis) (Num (1 / 2)) \<longrightarrow>
        status (snd (processVideoUpload faults now nts (Inr analysis) (Inr safety)
                       (Inr positivity) contentId actor d)) = requires_review
        \<and> (\<exists>q. moderationQueue (fst (processVideoUpload faults now nts (Inr analysis)
                       (Inr safety) (Inr positivity) contentId actor d)) = moderationQueue d @ [q]
                \<and> q_contentId q = contentId \<and> q_contentType q = video
                \<and> q_priority q = normal \<and> q_status q = pending
                \<and> q_aiFlaggedReason q
                    = Some (''Low categorization confidence: '' @ nts (confidence analysis))))
     \<and> (isSafe safety \<and> \<not> js_lt (confidence analysis) (Num (1 / 2)) \<longrightarrow>
        status (snd (processVideoUpload faults now nts (Inr analysis) (Inr safety)
                       (Inr positivity) contentId actor d)) = auto_approved
        \<and> moderationQueue (fst (processVideoUpload faults now nts (Inr analysis) (Inr safety)
                       (Inr positivity) contentId actor d)) = moderationQueue d)
     \<and> (isSafe safety \<longrightarrow>
        status (snd (processPostCreation faults now nts (Inr analysis) (Inr safety)
                       (Inr positivity) contentId actor d)) = auto_approved
        \<and> moderationQueue (fst (processPostCreation faults now nts (Inr analysis) (Inr safety)
                       (Inr positivity) contentId actor d)) = moderationQueue d)
     \<and> (\<forall>v \<in> set (videos (fst (processVideoUpload faults now nts (Inr analysis) (Inr safety)
                       (Inr positivity) contentId actor d))).
          v_id v = contentId \<longrightarrow>
          v_moderationStatus v
            = Some (status (snd (processVideoUpload faults now nts (Inr analysis) (Inr safety)
                       (Inr positivity) contentId actor d))))
     \<and> (\<forall>p \<in> set (posts (fst (processPostCreation faults now nts (Inr analysis) (Inr safety)
                       (Inr positivity) contentId actor d))).
          p_id p = contentId \<longrightarrow>
          p_moderationStatus p
            = Some (status (snd (processPostCreation faults now nts (Inr analysis) (Inr safety)
                       (Inr positivity) contentId actor d)))))
   \<and> (faults RowUpdate \<noteq> None \<or> faults AuditInsert \<noteq> None
        \<or> (\<exists>e. storeInteger nts positivity = Inl e) \<longrightarrow>
      status (snd (processVideoUpload faults now nts (Inr analysis) (Inr safety)
                     (Inr positivity) contentId actor d)) = requires_review
      \<and> \<not> success (snd (processVideoUpload faults now nts (Inr analysis) (Inr safety)
                     (Inr positivity) contentId actor d))
      \<and> status (snd (processPostCreation faults now nts (Inr analysis) (Inr safety)
                     (Inr positivity) contentId actor d)) = requires_review
      \<and> \<not> success (snd (processPostCreation faults now nts (Inr analysis) (Inr safety)
                     (Inr positivity) contentId actor d))
      \<and> (\<forall>v \<in> set (videos (fst (processVideoUpload faults now nts (Inr analysis) (Inr safety)
                     (Inr positivity) contentId actor d))).
           v_id v = contentId \<longrightarrow> v_moderationStatus v = Some requires_review)
      \<and> (\<forall>p \<in> set (posts (fst (processPostCreation faults now nts (Inr analysis) (Inr safety)
                     (Inr positivity) contentId actor d))).
           p_id p = contentId \<longrightarrow> p_moderationStatus p = Some requires_review))"
proof (intro conjI impI)
  assume rej: "faults RowUpdate \<noteq> None \<or> faults AuditInsert \<noteq> None
        \<or> (\<exists>e. storeInteger nts positivity = Inl e)"
  show "status (snd (processVideoUpload faults now nts (Inr analysis) (Inr safety)
                     (Inr positivity) contentId actor d)) = requires_review"
    and "\<not> success (snd (processVideoUpload faults now nts (Inr analysis) (Inr safety)
                     (Inr positivity) contentId actor d))"
    using rej by (rule processVideoUpload_rejected(1), rule processVideoUpload_rejected(2))
  show "status (snd (processPostCreation faults now nts (Inr analysis) (Inr safety)
                     (Inr positivity) contentId actor d)) = requires_review"
    and "\<not> success (snd (processPostCreation faults now nts (Inr analysis) (Inr safety)
                     (Inr positivity) contentId actor d))"
    using rej by (rule processPostCreation_rejected(1), rule processPostCreation_rejected(2))
  show "\<forall>v \<in> set (videos (fst (processVideoUpload faults now nts (Inr analysis) (Inr safety)
                     (Inr positivity) contentId actor d))).
           v_id v = contentId \<longrightarrow> v_moderationStatus v = Some requires_review"
    using rej by (rule processVideoUpload_rejected(3))
  show "\<forall>p \<in> set (posts (fst (processPostCreation faults now nts (Inr analysis) (Inr safety)
                     (Inr positivity) contentId actor d))).
           p_id p = contentId \<longrightarrow> p_moderationStatus p = Some requires_review"
    using rej by (rule processPostCreation_rejected(3))
next
  assume "(\<forall>site. faults site = None) \<and> storeInteger nts positivity = Inr score"
  then have ok: "\<forall>site. faults site = None" "storeInteger nts positivity = Inr score"
    by simp_all
  note v = processVideoUpload_accepted [OF ok, of now analysis safety contentId actor d]
  note p = processPostCreation_accepted [OF ok, of now analysis safety contentId actor d]
  {
    assume h: "\<not> isSafe safety \<and> riskLevel safety = risk_high"
    from h show "status (snd (processVideoUpload faults now nts (Inr analysis) (Inr safety)
                       (Inr positivity) contentId actor d)) = rejected"
      by (simp add: v(1) videoModerationStatus_def)
    from h show "status (snd (processPostCreation faults now nts (Inr analysis) (Inr safety)
                       (Inr positivity) contentId actor d)) = rejected"
      by (simp add: p(1) postModerationStatus_def)
    from h show "\<exists>q. moderationQueue (fst (processVideoUpload faults now nts (Inr analysis)
                       (Inr safety) (Inr positivity) contentId actor d)) = moderationQueue d @ [q]
                \<and> q_contentId q = contentId \<and> q_contentType q = video
                \<and> q_priority q = urgent \<and> q_status q = pending"
      by (simp add: v(3))
    from h show "\<exists>q. moderationQueue (fst (processPostCreation faults now nts (Inr analysis)
                       (Inr safety) (Inr positivity) contentId actor d)) = moderationQueue d @ [q]
                \<and> q_contentId q = contentId \<and> q_contentType q = post
                \<and> q_priority q = urgent \<and> q_status q = pending"
      by (simp add: p(3))
  }
  {
    assume h: "\<not> isSafe safety \<and> riskLevel safety \<noteq> risk_high"
    from h show "status (snd (processVideoUpload faults now nts (Inr analysis) (Inr safety)
                       (Inr positivity) contentId actor d)) = requires_review"
      by (simp add: v(1) videoModerationStatus_def)
    from h show "status (snd (processPostCreation faults now nts (Inr analysis) (Inr safety)
                       (Inr positivity) contentId actor d)) = requires_review"
      by (simp add: p(1) postModerationStatus_def)
    from h show "\<exists>q. moderationQueue (fst (processVideoUpload faults now nts (Inr analysis)
                       (Inr safety) (Inr positivity) contentId actor d)) = moderationQueue d @ [q]
                \<and> q_contentId q = contentId \<and> q_contentType q = video
                \<and> q_priority q = high \<and> q_status q = pending"
      by (simp add: v(3))
    from h show "\<exists>q. moderationQueue (fst (processPostCreation faults now nts (Inr analysis)
                       (Inr safety) (Inr positivity) contentId actor d)) = moderationQueue d @ [q]
                \<and> q_contentId q = contentId \<and> q_contentType q = post
                \<and> q_priority q = high \<and> q_status q = pending"
      by (simp add: p(3))
  }
  {
    assume h: "isSafe safety \<and> js_lt (confidence analysis) (Num (1 / 2))"
    from h show "status (snd (processVideoUpload faults now nts (Inr analysis) (Inr safety)
                       (Inr positivity) contentId actor d)) = requires_review"
      by (simp add: v(1) videoModerationStatus_def)
    from h show "\<exists>q. moderationQueue (fst (processVideoUpload faults now nts (Inr analysis)
                       (Inr safety) (Inr positivity) contentId actor d)) = moderationQueue d @ [q]
                \<and> q_contentId q = contentId \<and> q_contentType q = video
                \<and> q_priority q = normal \<and> q_status q = pending
                \<and> q_aiFlaggedReason q
                    = Some (''Low categorization confidence: '' @ nts (confidence analysis))"
      by (simp add: v(3))
  }
  {
    assume h: "isSafe safety \<and> \<not> js_lt (confidence analysis) (Num (1 / 2))"
    from h show "status (snd (processVideoUpload faults now nts (Inr analysis) (Inr safety)
                       (Inr positivity) contentId actor d)) = auto_approved"
      by (simp add: v(1) videoModerationStatus_def)
    from h show "moderationQueue (fst (processVideoUpload faults now nts (Inr analysis)
                       (Inr safety) (Inr positivity) contentId actor d)) = moderationQueue d"
      by (simp add: v(3))
  }
  {
    assume h: "isSafe safety"
    from h show "status (snd (processPostCreation faults now nts (Inr analysis) (Inr safety)
                       (Inr positivity) contentId actor d)) = auto_approved"
      by (simp add: p(1) postModerationStatus_def)
    from h show "moderationQueue (fst (processPostCreation faults now nts (Inr analysis)
                       (Inr safety) (Inr positivity) contentId actor d)) = moderationQueue d"
      by (simp add: p(3))
  }
  show "\<forall>v \<in> set (videos (fst (processVideoUpload faults now nts (Inr analysis) (Inr safety)
                       (Inr positivity) contentId actor d))).
          v_id v = contentId \<longrightarrow>
          v_moderationStatus v
            = Some (status (snd (processVideoUpload faults now nts (Inr analysis) (Inr safety)
                       (Inr positivity) contentId actor d)))"
  proof (intro ballI impI)
    fix x
    assume "x \<in> set (videos (fst (processVideoUpload faults now nts (Inr analysis) (Inr safety)
                       (Inr positivity) contentId actor d)))" and k: "v_id x = contentId"
    then have "x \<in> set (map (\<lambda>v. if v_id v = contentId
                       then v\<lparr>v_elementCategory := elementType analysis,
                              v_aiAnalysisResult := Some analysis,
                              v_safetyAssessment := Some safety,
                              v_moderationStatus := Some (videoModerationStatus analysis safety),
                              v_uploadStatus :=
                                spec_publishStatus (videoModerationStatus analysis safety),
                              v_positivityScore := Some score\<rparr>
                       else v) (videos d))"
      by (simp only: v(4))
    then have "v_moderationStatus x = Some (videoModerationStatus analysis safety)"
      using k by (rule updated_rows) simp
    then show "v_moderationStatus x
            = Some (status (snd (processVideoUpload faults now nts (Inr analysis) (Inr safety)
                       (Inr positivity) contentId actor d)))"
      by (simp only: v(1))
  qed
  show "\<forall>p \<in> set (posts (fst (processPostCreation faults now nts (Inr analysis) (Inr safety)
                       (Inr positivity) contentId actor d))).
          p_id p = contentId \<longrightarrow>
          p_moderationStatus p
            = Some (status (snd (processPostCreation faults now nts (Inr analysis) (Inr safety)
                       (Inr positivity) contentId actor d)))"
  proof (intro ballI impI)
    fix x
    assume "x \<in> set (posts (fst (processPostCreation faults now nts (Inr analysis) (Inr safety)
                       (Inr positivity) contentId actor d)))" and k: "p_id x = contentId"
    then have "x \<in> set (map (\<lambda>p. if p_id p = contentId
                       then p\<lparr>p_elementCategory := Some (elementType analysis),
                              p_safetyAssessment := Some safety,
                              p_moderationStatus := Some (postModerationStatus safety),
                              p_uploadStatus :=
                                Some (spec_publishStatus (postModerationStatus safety)),
                              p_positivityScore := Some score\<rparr>
                       else p) (posts d))"
      by (simp only: p(4))
    then have "p_moderationStatus x = Some (postModerationStatus safety)"
      using k by (rule updated_rows) simp
    then show "p_moderationStatus x
            = Some (status (snd (processPostCreation faults now nts (Inr analysis) (Inr safety)
                       (Inr positivity) contentId actor d)))"
      by (simp only: p(1))
  qed
qed

theorem moderation_decision_policy_witness:
  "status (snd (processVideoUpload no_faults 1000 example_numberToString
       (Inr \<lparr>elementType = ''Fire'', confidence = Num (3 / 10), reasoning = ''keywords''\<rparr>)
       (Inr \<lparr>isSafe = False, flags = [''violence/graphic''], riskLevel = risk_high\<rparr>)
       (Inr (Num 60)) 7 ''user-1'' example_db)) = rejected
   \<and> status (snd (processPostCreation no_faults 1000 example_numberToString
       (Inr \<lparr>elementType = ''Fire'', confidence = Num (3 / 10), reasoning = ''keywords''\<rparr>)
       (Inr \<lparr>isSafe = False, flags = [''api_error''], riskLevel = risk_medium\<rparr>)
       (Inr (Num 60)) 7 ''user-1'' example_db)) = requires_review
   \<and> status (snd (processVideoUpload no_faults 1000 example_numberToString
       (Inr \<lparr>elementType = ''Fire'', confidence = Num (3 / 10), reasoning = ''keywords''\<rparr>)
       (Inr \<lparr>isSafe = True, flags = [], riskLevel = risk_none\<rparr>)
       (Inr (Num 60)) 7 ''user-1'' example_db)) = requires_review
   \<and> status (snd (processPostCreation no_faults 1000 example_numberToString
       (Inr \<lparr>elementType = ''Fire'', confidence = Num (3 / 10), reasoning = ''keywords''\<rparr>)
       (Inr \<lparr>isSafe = True, flags = [], riskLevel = risk_none\<rparr>)
       (Inr (Num 60)) 7 ''user-1'' example_db)) = auto_approved
   \<and> status (snd (processVideoUpload no_faults 1000 example_numberToString
       (Inr \<lparr>elementType = ''Fire'', confidence = Num (8 / 10), reasoning = ''keywords''\<rparr>)
       (Inr \<lparr>isSafe = True, flags = [], riskLevel = risk_none\<rparr>)
       (Inr (Num 60)) 7 ''user-1'' example_db)) = auto_approved
   \<and> status (snd (processVideoUpload no_faults 1000 example_numberToString
       (Inr \<lparr>elementType = ''Fire'', confidence = Num (8 / 10), reasoning = ''keywords''\<rparr>)
       (Inr \<lparr>isSafe = True, flags = [], riskLevel = risk_none\<rparr>)
       (Inr (Num (145 / 2))) 7 ''user-1'' example_db)) = requires_review"
proof -
  have int60: "storeInteger example_numberToString (Num 60) = Inr 60"
    by code_simp
  have frac: "storeInteger example_numberToString (Num (145 / 2))
                = Inl (ErrorObj (''invalid input syntax for type integer: '' @ quoted ''72.5''))"
    by code_simp
  then have rej: "\<exists>e. storeInteger example_numberToString (Num (145 / 2)) = Inl e"
    by blast
  have "status (snd (processVideoUpload no_faults 1000 example_numberToString
       (Inr \<lparr>elementType = ''Fire'', confidence = Num (3 / 10), reasoning = ''keywords''\<rparr>)
       (Inr \<lparr>isSafe = False, flags = [''violence/graphic''], riskLevel = risk_high\<rparr>)
       (Inr (Num 60)) 7 ''user-1'' example_db)) = rejected"
    using moderation_decision_policy
          [where faults = no_faults and nts = example_numberToString
             and positivity = "Num 60" and score = 60
             and safety = "\<lparr>isSafe = False, flags = [''violence/graphic''],
                             riskLevel = risk_high\<rparr>"
             and analysis = "\<lparr>elementType = ''Fire'', confidence = Num (3 / 10),
                               reasoning = ''keywords''\<rparr>"
             and now = 1000 and contentId = 7 and actor = "''user-1''" and d = example_db]
          no_faults_none int60
    by simp
  moreover have "status (snd (processPostCreation no_faults 1000 example_numberToString
       (Inr \<lparr>elementType = ''Fire'', confidence = Num (3 / 10), reasoning = ''keywords''\<rparr>)
       (Inr \<lparr>isSafe = False, flags = [''api_error''], riskLevel = risk_medium\<rparr>)
       (Inr (Num 60)) 7 ''user-1'' example_db)) = requires_review"
    using moderation_decision_policy
          [where faults = no_faults and nts = example_numberToString
             and positivity = "Num 60" and score = 60
             and safety = "\<lparr>isSafe = False, flags = [''api_error''],
                             riskLevel = risk_medium\<rparr>"
             and analysis = "\<lparr>elementType = ''Fire'', confidence = Num (3 / 10),
                               reasoning = ''keywords''\<rparr>"
             and now = 1000 and contentId = 7 and actor = "''user-1''" and d = example_db]
          no_faults_none int60
    by simp
  moreover have "status (snd (processVideoUpload no_faults 1000 example_numberToString
       (Inr \<lparr>elementType = ''Fire'', confidence = Num (3 / 10), reasoning = ''keywords''\<rparr>)
       (Inr \<lparr>isSafe = True, flags = [], riskLevel = risk_none\<rparr>)
       (Inr (Num 60)) 7 ''user-1'' example_db)) = requires_review
     \<and> status (snd (processPostCreation no_faults 1000 example_numberToString
       (Inr \<lparr>elementType = ''Fire'', confidence = Num (3 / 10), reasoning = ''keywords''\<rparr>)
       (Inr \<lparr>isSafe = True, flags = [], riskLevel = risk_none\<rparr>)
       (Inr (Num 60)) 7 ''user-1'' example_db)) = auto_approved"
    using moderation_decision_policy
          [where faults = no_faults and nts = example_numberToString
             and positivity = "Num 60" and score = 60
             and safety = "\<lparr>isSafe = True, flags = [], riskLevel = risk_none\<rparr>"
             and analysis = "\<lparr>elementType = ''Fire'', confidence = Num (3 / 10),
                               reasoning = ''keywords''\<rparr>"
             and now = 1000 and contentId = 7 and actor = "''user-1''" and d = example_db]
          no_faults_none int60
    by simp
  moreover have "status (snd (processVideoUpload no_faults 1000 example_numberToString
       (Inr \<lparr>elementType = ''Fire'', confidence = Num (8 / 10), reasoning = ''keywords''\<rparr>)
       (Inr \<lparr>isSafe = True, flags = [], riskLevel = risk_none\<rparr>)
       (Inr (Num 60)) 7 ''user-1'' example_db)) = auto_approved"
    using moderation_decision_policy
          [where faults = no_faults and nts = example_numberToString
             and positivity = "Num 60" and score = 60
             and safety = "\<lparr>isSafe = True, flags = [], riskLevel = risk_none\<rparr>"
             and analysis = "\<lparr>elementType = ''Fire'', confidence = Num (8 / 10),
                               reasoning = ''keywords''\<rparr>"
             and now = 1000 and contentId = 7 and actor = "''user-1''" and d = example_db]
          no_faults_none int60
    by simp
  moreover have "status (snd (processVideoUpload no_faults 1000 example_numberToString
       (Inr \<lparr>elementType = ''Fire'', confidence = Num (8 / 10), reasoning = ''keywords''\<rparr>)
       (Inr \<lparr>isSafe = True, flags = [], riskLevel = risk_none\<rparr>)
       (Inr (Num (145 / 2))) 7 ''user-1'' example_db)) = requires_review"
    using moderation_decision_policy
          [where faults = no_faults and nts = example_numberToString
             and positivity = "Num (145 / 2)"
             and safety = "\<lparr>isSafe = True, flags = [], riskLevel = risk_none\<rparr>"
             and analysis = "\<lparr>elementType = ''Fire'', confidence = Num (8 / 10),
                               reasoning = ''keywords''\<rparr>"
             and now = 1000 and contentId = 7 and actor = "''user-1''" and d = example_db]
          rej
    by blast
  ultimately show ?thesis by blast
qed

text \<open>
  C1 as stated fails: for a safe video with classifier confidence 0.8 and positivity
  score 72.5 the update of the integer column is rejected, and the outcome is
  requires_review with a new queue entry of priority high, not auto_approved with the
  queue unchanged; the post with the same stage results ends in requires_review too.
\<close>

theorem moderation_decision_overridden_by_rejected_write:
  "status (snd (processVideoUpload no_faults 1000 example_numberToString
       (Inr \<lparr>elementType = ''Fire'', confidence = Num (8 / 10), reasoning = ''keywords''\<rparr>)
       (Inr \<lparr>isSafe = True, flags = [], riskLevel = risk_none\<rparr>)
       (Inr (Num (145 / 2))) 7 ''user-1'' example_db)) = requires_review
   \<and> map (\<lambda>q. (q_contentId q, q_contentType q, q_priority q))
       (moderationQueue (fst (processVideoUpload no_faults 1000 example_numberToString
         (Inr \<lparr>elementType = ''Fire'', confidence = Num (8 / 10), reasoning = ''keywords''\<rparr>)
         (Inr \<lparr>isSafe = True, flags = [], riskLevel = risk_none\<rparr>)
         (Inr (Num (145 / 2))) 7 ''user-1'' example_db)))
     = map (\<lambda>q. (q_contentId q, q_contentType q, q_priority q)) (moderationQueue example_db)
         @ [(7, video, high)]
   \<and> status (snd (processPostCreation no_faults 1000 example_numberToString
       (Inr \<lparr>elementType = ''Fire'', confidence = Num (8 / 10), reasoning = ''keywords''\<rparr>)
       (Inr \<lparr>isSafe = True, flags = [], riskLevel = risk_none\<rparr>)
       (Inr (Num (145 / 2))) 7 ''user-1'' example_db)) = requires_review"
proof (intro conjI)
  show "status (snd (processVideoUpload no_faults 1000 example_numberToString
       (Inr \<lparr>elementType = ''Fire'', confidence = Num (8 / 10), reasoning = ''keywords''\<rparr>)
       (Inr \<lparr>isSafe = True, flags = [], riskLevel = risk_none\<rparr>)
       (Inr (Num (145 / 2))) 7 ''user-1'' example_db)) = requires_review"
    by code_simp
  show "map (\<lambda>q. (q_contentId q, q_contentType q, q_priority q))
       (moderationQueue (fst (processVideoUpload no_faults 1000 example_numberToString
         (Inr \<lparr>elementType = ''Fire'', confidence = Num (8 / 10), reasoning = ''keywords''\<rparr>)
         (Inr \<lparr>isSafe = True, flags = [], riskLevel = risk_none\<rparr>)
         (Inr (Num (145 / 2))) 7 ''user-1'' example_db)))
     = map (\<lambda>q. (q_contentId q, q_contentType q, q_priority q)) (moderationQueue example_db)
         @ [(7, video, high)]"
    by code_simp
  show "status (snd (processPostCreation no_faults 1000 example_numberToString
       (Inr \<lparr>elementType = ''Fire'', confidence = Num (8 / 10), reasoning = ''keywords''\<rparr>)
       (Inr \<lparr>isSafe = True, flags = [], riskLevel = risk_none\<rparr>)
       (Inr (Num (145 / 2))) 7 ''user-1'' example_db)) = requires_review"
    by code_simp
qed

section \<open>Moderation workflow: the exception path\<close>

text \<open>
  C2. On a post whose classifier stage throws, \<open>processPostCreation\<close> sets the post to
  requires_review and Under Review, and leaves the moderation queue as it was: no entry
  is created. On the same failure \<open>processVideoUpload\<close> appends the entry whose reason
  names the failure. A rejected write takes the same path: the post whose positivity
  score is 72.5 ends Under Review, with the queue as it was.
\<close>

theorem processPostCreation_exception_leaves_queue:
  "status (snd (processPostCreation no_faults 1000 example_numberToString
       (Inl (ErrorObj ''timeout''))
       (Inr \<lparr>isSafe = True, flags = [], riskLevel = risk_none\<rparr>) (Inr (Num 60))
       7 ''user-1'' example_db)) = requires_review
   \<and> map p_moderationStatus (posts (fst (processPostCreation no_faults 1000
       example_numberToString (Inl (ErrorObj ''timeout''))
       (Inr \<lparr>isSafe = True, flags = [], riskLevel = risk_none\<rparr>) (Inr (Num 60))
       7 ''user-1'' example_db))) = [Some requires_review]
   \<and> map p_uploadStatus (posts (fst (processPostCreation no_faults 1000
       example_numberToString (Inl (ErrorObj ''timeout''))
       (Inr \<lparr>isSafe = True, flags = [], riskLevel = risk_none\<rparr>) (Inr (Num 60))
       7 ''user-1'' example_db))) = [Some Under_Review]
   \<and> moderationQueue (fst (processPostCreation no_faults 1000 example_numberToString
       (Inl (ErrorObj ''timeout''))
       (Inr \<lparr>isSafe = True, flags = [], riskLevel = risk_none\<rparr>) (Inr (Num 60))
       7 ''user-1'' example_db)) = moderationQueue example_db
   \<and> map q_aiFlaggedReason (moderationQueue (fst (processVideoUpload no_faults 1000
       example_numberToString (Inl (ErrorObj ''timeout''))
       (Inr \<lparr>isSafe = True, flags = [], riskLevel = risk_none\<rparr>) (Inr (Num 60))
       7 ''user-1'' example_db)))
       = map q_aiFlaggedReason (moderationQueue example_db)
           @ [Some ''Processing error: timeout'']
   \<and> map p_uploadStatus (posts (fst (processPostCreation no_faults 1000
       example_numberToString
       (Inr \<lparr>elementType = ''Fire'', confidence = Num (8 / 10), reasoning = ''keywords''\<rparr>)
       (Inr \<lparr>isSafe = True, flags = [], riskLevel = risk_none\<rparr>) (Inr (Num (145 / 2)))
       7 ''user-1'' example_db))) = [Some Under_Review]
   \<and> moderationQueue (fst (processPostCreation no_faults 1000 example_numberToString
       (Inr \<lparr>elementType = ''Fire'', confidence = Num (8 / 10), reasoning = ''keywords''\<rparr>)
       (Inr \<lparr>isSafe = True, flags = [], riskLevel = risk_none\<rparr>) (Inr (Num (145 / 2)))
       7 ''user-1'' example_db)) = moderationQueue example_db"
proof (intro conjI)
  show "status (snd (processPostCreation no_faults 1000 example_numberToString
       (Inl (ErrorObj ''timeout''))
       (Inr \<lparr>isSafe = True, flags = [], riskLevel = risk_none\<rparr>) (Inr (Num 60))
       7 ''user-1'' example_db)) = requires_review"
    by code_simp
  show "map p_moderationStatus (posts (fst (processPostCreation no_faults 1000
       example_numberToString (Inl (ErrorObj ''timeout''))
       (Inr \<lparr>isSafe = True, flags = [], riskLevel = risk_none\<rparr>) (Inr (Num 60))
       7 ''user-1'' example_db))) = [Some requires_review]"
    by code_simp
  show "map p_uploadStatus (posts (fst (processPostCreation no_faults 1000
       example_numberToString (Inl (ErrorObj ''timeout''))
       (Inr \<lparr>isSafe = True, flags = [], riskLevel = risk_none\<rparr>) (Inr (Num 60))
       7 ''user-1'' example_db))) = [Some Under_Review]"
    by code_simp
  show "moderationQueue (fst (processPostCreation no_faults 1000 example_numberToString
       (Inl (ErrorObj ''timeout''))
       (Inr \<lparr>isSafe = True, flags = [], riskLevel = risk_none\<rparr>) (Inr (Num 60))
       7 ''user-1'' example_db)) = moderationQueue example_db"
    by code_simp
  show "map q_aiFlaggedReason (moderationQueue (fst (processVideoUpload no_faults 1000
       example_numberToString (Inl (ErrorObj ''timeout''))
       (Inr \<lparr>isSafe = True, flags = [], riskLevel = risk_none\<rparr>) (Inr (Num 60))
       7 ''user-1'' example_db)))
       = map q_aiFlaggedReason (moderationQueue example_db)
           @ [Some ''Processing error: timeout'']"
    by code_simp
  show "map p_uploadStatus (posts (fst (processPostCreation no_faults 1000
       example_numberToString
       (Inr \<lparr>elementType = ''Fire'', confidence = Num (8 / 10), reasoning = ''keywords''\<rparr>)
       (Inr \<lparr>isSafe = True, flags = [], riskLevel = risk_none\<rparr>) (Inr (Num (145 / 2)))
       7 ''user-1'' example_db))) = [Some Under_Review]"
    by code_simp
  show "moderationQueue (fst (processPostCreation no_faults 1000 example_numberToString
       (Inr \<lparr>elementType = ''Fire'', confidence = Num (8 / 10), reasoning = ''keywords''\<rparr>)
       (Inr \<lparr>isSafe = True, flags = [], riskLevel = risk_none\<rparr>) (Inr (Num (145 / 2)))
       7 ''user-1'' example_db)) = moderationQueue example_db"
    by code_simp
qed

section \<open>Moderation workflow: publish status and moderation status\<close>

text \<open>
  C6. After \<open>processVideoUpload\<close> and \<open>processPostCreation\<close>, whether the stages and
  the writes of the \<open>try\<close> block go through or throw, and after \<open>resolveModeration\<close>
  for a video and for a post, every row of the content id that was written has a
  moderation status, and its publish status is the one the specification's table
  assigns to it: auto_approved to Published, rejected to Flagged, requires_review to
  Under Review.
\<close>

theorem publish_status_follows_moderation_status:
  "(\<forall>v \<in> set (videos (fst (processVideoUpload faults now nts analysisR safetyR positivityR
                              contentId actor d))).
       v_id v = contentId \<longrightarrow>
       map_option spec_publishStatus (v_moderationStatus v) = Some (v_uploadStatus v))
   \<and> (\<forall>p \<in> set (posts (fst (processPostCreation faults now nts analysisR safetyR positivityR
                              contentId actor d))).
       p_id p = contentId \<longrightarrow>
       p_uploadStatus p \<noteq> None
       \<and> map_option spec_publishStatus (p_moderationStatus p) = p_uploadStatus p)
   \<and> (\<forall>v \<in> set (videos (resolveModeration now contentId video decision modNotes moderator d)).
       v_id v = contentId \<longrightarrow>
       map_option spec_publishStatus (v_moderationStatus v) = Some (v_uploadStatus v))
   \<and> (\<forall>p \<in> set (posts (resolveModeration now contentId post decision modNotes moderator d)).
       p_id p = contentId \<longrightarrow>
       p_uploadStatus p \<noteq> None
       \<and> map_option spec_publishStatus (p_moderationStatus p) = p_uploadStatus p)"
proof (intro conjI ballI impI)
  fix v
  assume "v \<in> set (videos (fst (processVideoUpload faults now nts analysisR safetyR positivityR
                              contentId actor d)))" and "v_id v = contentId"
  then show "map_option spec_publishStatus (v_moderationStatus v) = Some (v_uploadStatus v)"
    by (rule processVideoUpload_rows)
next
  fix p
  assume "p \<in> set (posts (fst (processPostCreation faults now nts analysisR safetyR positivityR
                              contentId actor d)))" and "p_id p = contentId"
  then have "p_uploadStatus p \<noteq> None
       \<and> map_option spec_publishStatus (p_moderationStatus p) = p_uploadStatus p"
    by (rule processPostCreation_rows)
  then show "p_uploadStatus p \<noteq> None"
    and "map_option spec_publishStatus (p_moderationStatus p) = p_uploadStatus p"
    by simp_all
next
  fix v
  assume "v \<in> set (videos (resolveModeration now contentId video decision modNotes moderator d))"
    and k: "v_id v = contentId"
  then have "v \<in> set (map (\<lambda>v. if v_id v = contentId
               then v\<lparr>v_moderationStatus :=
                        Some (if decision = decision_approved then auto_approved else rejected),
                      v_uploadStatus :=
                        (if decision = decision_approved then Published else Flagged),
                      v_moderationNotes :=
                        (case modNotes of None \<Rightarrow> v_moderationNotes v | Some n \<Rightarrow> Some n),
                      v_moderatedBy := Some moderator,
                      v_moderatedAt := Some now\<rparr>
               else v) (videos d))"
    by (simp add: resolveModeration_tables)
  then show "map_option spec_publishStatus (v_moderationStatus v) = Some (v_uploadStatus v)"
    using k by (rule updated_rows) simp
next
  fix p
  assume "p \<in> set (posts (resolveModeration now contentId post decision modNotes moderator d))"
    and k: "p_id p = contentId"
  then have "p \<in> set (map (\<lambda>p. if p_id p = contentId
               then p\<lparr>p_moderationStatus :=
                        Some (if decision = decision_approved then auto_approved else rejected),
                      p_uploadStatus :=
                        Some (if decision = decision_approved then Published else Flagged)\<rparr>
               else p) (posts d))"
    by (simp add: resolveModeration_tables)
  then have "p_uploadStatus p \<noteq> None
       \<and> map_option spec_publishStatus (p_moderationStatus p) = p_uploadStatus p"
    using k by (rule updated_rows) simp
  then show "p_uploadStatus p \<noteq> None"
    and "map_option spec_publishStatus (p_moderationStatus p) = p_uploadStatus p"
    by simp_all
qed

theorem publish_status_witness:
  "hd (videos (fst (processVideoUpload no_faults 1000 example_numberToString (Inl (ErrorObj ''timeout''))
         (Inr \<lparr>isSafe = True, flags = [], riskLevel = risk_none\<rparr>) (Inr (Num 60))
         7 ''user-1'' example_db)))
     \<in> set (videos (fst (processVideoUpload no_faults 1000 example_numberToString (Inl (ErrorObj ''timeout''))
         (Inr \<lparr>isSafe = True, flags = [], riskLevel = risk_none\<rparr>) (Inr (Num 60))
         7 ''user-1'' example_db)))
   \<and> v_id (hd (videos (fst (processVideoUpload no_faults 1000 example_numberToString (Inl (ErrorObj ''timeout''))
         (Inr \<lparr>isSafe = True, flags = [], riskLevel = risk_none\<rparr>) (Inr (Num 60))
         7 ''user-1'' example_db)))) = 7
   \<and> map_option spec_publishStatus
         (v_moderationStatus (hd (videos (fst (processVideoUpload no_faults 1000 example_numberToString
            (Inl (ErrorObj ''timeout''))
            (Inr \<lparr>isSafe = True, flags = [], riskLevel = risk_none\<rparr>) (Inr (Num 60))
            7 ''user-1'' example_db)))))
       = Some (v_uploadStatus (hd (videos (fst (processVideoUpload no_faults 1000 example_numberToString
            (Inl (ErrorObj ''timeout''))
            (Inr \<lparr>isSafe = True, flags = [], riskLevel = risk_none\<rparr>) (Inr (Num 60))
            7 ''user-1'' example_db)))))
   \<and> hd (posts (resolveModeration 2000 7 post decision_rejected None ''mod-1'' example_db))
     \<in> set (posts (resolveModeration 2000 7 post decision_rejected None ''mod-1'' example_db))
   \<and> p_id (hd (posts (resolveModeration 2000 7 post decision_rejected None ''mod-1''
         example_db))) = 7
   \<and> map_option spec_publishStatus
         (p_moderationStatus (hd (posts (resolveModeration 2000 7 post decision_rejected None
            ''mod-1'' example_db))))
       = p_uploadStatus (hd (posts (resolveModeration 2000 7 post decision_rejected None
            ''mod-1'' example_db)))"
proof -
  let ?vs = "videos (fst (processVideoUpload no_faults 1000 example_numberToString (Inl (ErrorObj ''timeout''))
         (Inr \<lparr>isSafe = True, flags = [], riskLevel = risk_none\<rparr>) (Inr (Num 60))
         7 ''user-1'' example_db))"
  let ?ps = "posts (resolveModeration 2000 7 post decision_rejected None ''mod-1'' example_db)"
  have v1: "hd ?vs \<in> set ?vs" by code_simp
  have v2: "v_id (hd ?vs) = 7" by code_simp
  have p1: "hd ?ps \<in> set ?ps" by code_simp
  have p2: "p_id (hd ?ps) = 7" by code_simp
  note inst1 = publish_status_follows_moderation_status
    [where faults = no_faults and now = 1000 and nts = example_numberToString and analysisR = "Inl (ErrorObj ''timeout'')"
       and safetyR = "Inr \<lparr>isSafe = True, flags = [], riskLevel = risk_none\<rparr>"
       and positivityR = "Inr (Num 60)" and contentId = 7 and actor = "''user-1''"
       and d = example_db]
  have v3: "map_option spec_publishStatus (v_moderationStatus (hd ?vs))
              = Some (v_uploadStatus (hd ?vs))"
    using inst1 v1 v2 by blast
  note inst2 = publish_status_follows_moderation_status
    [where now = 2000 and contentId = 7 and decision = decision_rejected and modNotes = None
       and moderator = "''mod-1''" and d = example_db]
  have p3: "map_option spec_publishStatus (p_moderationStatus (hd ?ps)) = p_uploadStatus (hd ?ps)"
    using inst2 p1 p2 by blast
  from v1 v2 v3 p1 p2 p3 show ?thesis by blast
qed

section \<open>Moderation workflow: resolution by a moderator\<close>

lemma map_proj_updated:
  "(\<And>x. f (g x) = f x) \<Longrightarrow> map f (map (\<lambda>x. if c x then g x else x) xs) = map f xs"
  by (induction xs) auto

lemma map_idem_updated:
  "(\<And>x. c x \<Longrightarrow> c (g x) \<and> g (g x) = g x) \<Longrightarrow>
   map (\<lambda>x. if c x then g x else x) (map (\<lambda>x. if c x then g x else x) xs)
     = map (\<lambda>x. if c x then g x else x) xs"
  by (induction xs) auto

lemma resolveModeration_videos_video:
  "videos (resolveModeration now contentId video decision modNotes moderator d)
     = map (\<lambda>v. if v_id v = contentId
               then v\<lparr>v_moderationStatus :=
                        Some (if decision = decision_approved then auto_approved else rejected),
                      v_uploadStatus :=
                        (if decision = decision_approved then Published else Flagged),
                      v_moderationNotes :=
                        (case modNotes of None \<Rightarrow> v_moderationNotes v | Some n \<Rightarrow> Some n),
                      v_moderatedBy := Some moderator,
                      v_moderatedAt := Some now\<rparr>
               else v) (videos d)"
  by (simp add: resolveModeration_tables)

text \<open>
  C3 (as amended). A second call of the resolution operation with the same content id,
  type and decision leaves the moderation and publish statuses of every video and every
  post, and the whole moderation queue, as the first call left them; it appends one
  more audit entry, with the same action, to the audit log.
\<close>

theorem resolveModeration_second_call:
  "map v_moderationStatus
       (videos (resolveModeration now2 cid ctype decision modNotes moderator
                 (resolveModeration now1 cid ctype decision modNotes moderator d)))
     = map v_moderationStatus
         (videos (resolveModeration now1 cid ctype decision modNotes moderator d))
   \<and> map v_uploadStatus
       (videos (resolveModeration now2 cid ctype decision modNotes moderator
                 (resolveModeration now1 cid ctype decision modNotes moderator d)))
     = map v_uploadStatus
         (videos (resolveModeration now1 cid ctype decision modNotes moderator d))
   \<and> posts (resolveModeration now2 cid ctype decision modNotes moderator
                 (resolveModeration now1 cid ctype decision modNotes moderator d))
     = posts (resolveModeration now1 cid ctype decision modNotes moderator d)
   \<and> moderationQueue (resolveModeration now2 cid ctype decision modNotes moderator
                 (resolveModeration now1 cid ctype decision modNotes moderator d))
     = moderationQueue (resolveModeration now1 cid ctype decision modNotes moderator d)
   \<and> auditLog (resolveModeration now2 cid ctype decision modNotes moderator
                 (resolveModeration now1 cid ctype decision modNotes moderator d))
     = auditLog (resolveModeration now1 cid ctype decision modNotes moderator d) @
         [\<lparr>a_id = next_id (map a_id
                    (auditLog (resolveModeration now1 cid ctype decision modNotes moderator d))),
           a_action = (if decision = decision_approved then publish else reject),
           a_actorId = Some moderator, a_contentId = Some cid, a_contentType = Some ctype,
           a_changes = Some (DecisionChanges decision modNotes), a_timestamp = now2\<rparr>]"
proof (intro conjI)
  let ?d1 = "resolveModeration now1 cid ctype decision modNotes moderator d"
  let ?d2 = "resolveModeration now2 cid ctype decision modNotes moderator ?d1"
  show "map v_moderationStatus (videos ?d2) = map v_moderationStatus (videos ?d1)"
  proof (cases "ctype = video")
    case True
    then show ?thesis
      unfolding True resolveModeration_videos_video by (simp add: comp_def)
  next
    case False
    then show ?thesis
      unfolding resolveModeration_tables by simp
  qed
  show "map v_uploadStatus (videos ?d2) = map v_uploadStatus (videos ?d1)"
  proof (cases "ctype = video")
    case True
    then show ?thesis
      unfolding True resolveModeration_videos_video by (simp add: comp_def)
  next
    case False
    then show ?thesis
      unfolding resolveModeration_tables by simp
  qed
  show "posts ?d2 = posts ?d1"
    unfolding resolveModeration_tables
    by (cases "ctype = video") (simp_all add: map_idem_updated)
  show "moderationQueue ?d2 = moderationQueue ?d1"
    unfolding resolveModeration_tables by (rule map_idem_updated) simp
  show "auditLog ?d2 = auditLog ?d1 @
         [\<lparr>a_id = next_id (map a_id (auditLog ?d1)),
           a_action = (if decision = decision_approved then publish else reject),
           a_actorId = Some moderator, a_contentId = Some cid, a_contentType = Some ctype,
           a_changes = Some (DecisionChanges decision modNotes), a_timestamp = now2\<rparr>]"
    by (rule resolveModeration_tables)
qed

text \<open>
  C3 as stated fails: after the first call the audit log of the example holds one
  entry, after the second call it holds two, with the same action.
\<close>

theorem resolveModeration_second_call_appends_audit_entry:
  "map a_action (auditLog (resolveModeration 1000 7 video decision_approved None ''mod-1''
                   example_db)) = [publish]
   \<and> map a_action (auditLog (resolveModeration 2000 7 video decision_approved None ''mod-1''
                   (resolveModeration 1000 7 video decision_approved None ''mod-1''
                      example_db))) = [publish, publish]"
  by (simp add: resolveModeration_tables example_db_def)

text \<open>
  C10. After a call of the resolution operation for content id \<open>n\<close>, every queue entry
  with content id \<open>n\<close> is resolved, whatever its content type and whatever type was
  passed to the call; each such entry of the old queue is in the new queue with status
  resolved, the entries of other content ids are kept, and no entry changes its type.
\<close>

theorem resolveModeration_resolves_every_type:
  "(\<forall>q \<in> set (moderationQueue
                 (resolveModeration now n contentType decision modNotes moderator d)).
       q_contentId q = n \<longrightarrow> q_status q = resolved)
   \<and> (\<forall>q \<in> set (moderationQueue d).
       q_contentId q = n \<longrightarrow>
       q\<lparr>q_status := resolved\<rparr>
         \<in> set (moderationQueue (resolveModeration now n contentType decision modNotes moderator d)))
   \<and> (\<forall>q \<in> set (moderationQueue d).
       q_contentId q \<noteq> n \<longrightarrow>
       q \<in> set (moderationQueue (resolveModeration now n contentType decision modNotes moderator d)))
   \<and> map q_contentType
        (moderationQueue (resolveModeration now n contentType decision modNotes moderator d))
       = map q_contentType (moderationQueue d)"
proof (intro conjI ballI impI)
  fix q
  assume "q \<in> set (moderationQueue
                 (resolveModeration now n contentType decision modNotes moderator d))"
    and k: "q_contentId q = n"
  then have "q \<in> set (map (\<lambda>q. if q_contentId q = n then q\<lparr>q_status := resolved\<rparr> else q)
                       (moderationQueue d))"
    by (simp only: resolveModeration_tables)
  then show "q_status q = resolved"
    using k by (rule updated_rows) simp
next
  fix q
  assume "q \<in> set (moderationQueue d)" and "q_contentId q = n"
  then show "q\<lparr>q_status := resolved\<rparr>
         \<in> set (moderationQueue (resolveModeration now n contentType decision modNotes moderator d))"
    unfolding resolveModeration_tables by force
next
  fix q
  assume "q \<in> set (moderationQueue d)" and "q_contentId q \<noteq> n"
  then show "q \<in> set (moderationQueue
                       (resolveModeration now n contentType decision modNotes moderator d))"
    unfolding resolveModeration_tables by force
next
  show "map q_contentType
        (moderationQueue (resolveModeration now n contentType decision modNotes moderator d))
       = map q_contentType (moderationQueue d)"
    unfolding resolveModeration_tables by (rule map_proj_updated) simp
qed

theorem resolveModeration_resolves_every_type_witness:
  "\<lparr>q_id = 2, q_contentId = 7, q_contentType = post, q_aiFlaggedReason = Some ''hate'',
     q_priority = high, q_createdAt = 20, q_status = pending\<rparr> \<in> set (moderationQueue example_db)
   \<and> \<lparr>q_id = 2, q_contentId = 7, q_contentType = post, q_aiFlaggedReason = Some ''hate'',
     q_priority = high, q_createdAt = 20, q_status = resolved\<rparr>
       \<in> set (moderationQueue
                (resolveModeration 2000 7 video decision_approved None ''mod-1'' example_db))"
proof -
  have m: "\<lparr>q_id = 2, q_contentId = 7, q_contentType = post, q_aiFlaggedReason = Some ''hate'',
     q_priority = high, q_createdAt = 20, q_status = pending\<rparr> \<in> set (moderationQueue example_db)"
    by (simp add: example_db_def)
  have "\<forall>q \<in> set (moderationQueue example_db).
       q_contentId q = 7 \<longrightarrow>
       q\<lparr>q_status := resolved\<rparr>
         \<in> set (moderationQueue
                  (resolveModeration 2000 7 video decision_approved None ''mod-1'' example_db))"
    using resolveModeration_resolves_every_type
            [where now = 2000 and n = 7 and contentType = video
               and decision = decision_approved and modNotes = None
               and moderator = "''mod-1''" and d = example_db]
    by blast
  with m have "\<lparr>q_id = 2, q_contentId = 7, q_contentType = post,
     q_aiFlaggedReason = Some ''hate'', q_priority = high, q_createdAt = 20,
     q_status = pending\<rparr>\<lparr>q_status := resolved\<rparr>
       \<in> set (moderationQueue
                (resolveModeration 2000 7 video decision_approved None ''mod-1'' example_db))"
    by fastforce
  with m show ?thesis by simp
qed

section \<open>Trending calculator: one row per item, and the second run\<close>
























































end
